theory Spec2Isabelle
  imports Main "HOL-Library.Word"
begin

unbundle bit_operations_syntax

section \<open>Python values\<close>

text \<open>
  The bridge receives its parameters as the result of \<^verbatim>\<open>json.loads\<close>, so the values its
  handlers compute with are the Python values a JSON document decodes to.  Python integers
  are unbounded (\<^typ>\<open>int\<close>).  A Python float is a binary64 value: \<open>Finite m e\<close> stands for
  the number \<open>m * 2 ^ e\<close>, next to the two infinities and not-a-number.  A character
  of a text is a code point below 256, so the texts of the model are the Python strings
  of Latin-1 characters; a string with a character beyond that range has no counterpart
  here.
\<close>

datatype pyfloat = Finite int int | PosInf | NegInf | NaN

datatype json =
    JNull
  | JBool bool
  | JInt int
  | JFloat pyfloat
  | JStr string
  | JList "json list"
  | JObj "(string \<times> json) list"

text \<open>The exceptions the handlers can meet.  \<open>ModbusException\<close> is whatever the serial
  client raises instead of returning a response object.\<close>

datatype exn = AttributeError | TypeError | ValueError | OverflowError | ModbusException

text \<open>A decoded JSON object keeps its members in document order; as in a Python dict,
  the last binding of a key wins.  \<open>dict_get\<close> is \<^verbatim>\<open>d.get(key, default)\<close> on a dict;
  on any other value the attribute \<^verbatim>\<open>get\<close> is missing, which the handlers below
  write out as \<open>AttributeError\<close>.\<close>

definition dict_get :: "(string \<times> json) list \<Rightarrow> string \<Rightarrow> json \<Rightarrow> json" where
  "dict_get kvs key dflt = (case map_of (rev kvs) key of Some v \<Rightarrow> v | None \<Rightarrow> dflt)"

text \<open>The operand of \<^verbatim>\<open>&\<close> and \<^verbatim>\<open>>>\<close>: an int, or a bool read as 0 or 1; anything
  else raises \<^verbatim>\<open>TypeError\<close>.\<close>

definition py_index :: "json \<Rightarrow> exn + int" where
  "py_index v =
     (case v of
        JInt n \<Rightarrow> Inr n
      | JBool b \<Rightarrow> Inr (if b then 1 else 0)
      | _ \<Rightarrow> Inl TypeError)"

text \<open>Truth value of a Python object (\<^verbatim>\<open>if not params\<close>).\<close>

definition py_truthy :: "json \<Rightarrow> bool" where
  "py_truthy v =
     (case v of
        JNull \<Rightarrow> False
      | JBool b \<Rightarrow> b
      | JInt n \<Rightarrow> n \<noteq> 0
      | JFloat f \<Rightarrow> (case f of Finite m e \<Rightarrow> m \<noteq> 0 | _ \<Rightarrow> True)
      | JStr s \<Rightarrow> s \<noteq> []
      | JList xs \<Rightarrow> xs \<noteq> []
      | JObj kvs \<Rightarrow> kvs \<noteq> [])"

text \<open>\<^verbatim>\<open>int(x)\<close> on a float truncates towards zero; an infinity raises
  \<^verbatim>\<open>OverflowError\<close> and not-a-number raises \<^verbatim>\<open>ValueError\<close>.\<close>

definition trunc_float :: "int \<Rightarrow> int \<Rightarrow> int" where
  "trunc_float m e =
     (if 0 \<le> e then m * 2 ^ nat e
      else if 0 \<le> m then m div 2 ^ nat (- e)
      else - ((- m) div 2 ^ nat (- e)))"

definition py_int_of_float :: "pyfloat \<Rightarrow> exn + int" where
  "py_int_of_float f =
     (case f of
        Finite m e \<Rightarrow> Inr (trunc_float m e)
      | NaN \<Rightarrow> Inl ValueError
      | _ \<Rightarrow> Inl OverflowError)"

section \<open>Text: split, replace, int() and float()\<close>

text \<open>\<^verbatim>\<open>topic.split('/')\<close>: always at least one segment.\<close>

fun split_on :: "char \<Rightarrow> string \<Rightarrow> string list" where
  "split_on d [] = [[]]"
| "split_on d (c # cs) =
     (if c = d then [] # split_on d cs
      else (case split_on d cs of
              w # ws \<Rightarrow> (c # w) # ws
            | [] \<Rightarrow> [[c]]))"

text \<open>\<^verbatim>\<open>s.replace(old, '')\<close> for a non-empty \<open>old\<close>: every occurrence, left to right,
  without overlap.\<close>

fun remove_all :: "string \<Rightarrow> string \<Rightarrow> string" where
  "remove_all old [] = []"
| "remove_all old (c # cs) =
     (if old \<noteq> [] \<and> take (length old) (c # cs) = old
      then remove_all old (drop (length old - 1) cs)
      else c # remove_all old cs)"

definition is_digit :: "char \<Rightarrow> bool" where
  "is_digit c = (c \<in> set ''0123456789'')"

text \<open>The value of a digit is its place in the row of digits.\<close>

definition digit_val :: "char \<Rightarrow> nat" where
  "digit_val c = length (takeWhile (\<lambda>d. d \<noteq> c) ''0123456789'')"

text \<open>The value of a run of decimal digits, most significant first.\<close>

definition digits_val :: "string \<Rightarrow> nat" where
  "digits_val ds = foldl (\<lambda>acc c. 10 * acc + digit_val c) 0 ds"

text \<open>What \<^verbatim>\<open>int()\<close> and \<^verbatim>\<open>float()\<close> skip at both ends of a string.  The conversion
  first replaces every Unicode space from code point 127 on by a blank, which below 256
  are U+0085 and U+00A0, and leaves the characters below 127 as they are; the number
  parser then skips the white space of C: tab, line feed, vertical tab, form feed,
  carriage return and blank.  The separators 0x1C..0x1F, which \<^verbatim>\<open>str.strip()\<close> would
  remove, are not skipped.\<close>

definition is_space :: "char \<Rightarrow> bool" where
  "is_space c =
     (c \<in> set [CHR 0x09, CHR 0x0A, CHR 0x0B, CHR 0x0C, CHR 0x0D, CHR 0x20,
                CHR 0x85, CHR 0xA0])"

text \<open>The string between the skipped ends.\<close>

definition strip :: "string \<Rightarrow> string" where
  "strip s = rev (dropWhile is_space (rev (dropWhile is_space s)))"

text \<open>Numeric literals may group digits with single underscores; an underscore is legal
  only between two digits.  \<open>drop_underscores prev s\<close> removes them, or fails; \<open>prev\<close>
  says whether the character before \<open>s\<close> was a digit.\<close>

fun drop_underscores :: "bool \<Rightarrow> string \<Rightarrow> string option" where
  "drop_underscores prev [] = Some []"
| "drop_underscores prev (c # cs) =
     (if c = CHR ''_'' then
        (case cs of
           [] \<Rightarrow> None
         | d # _ \<Rightarrow> if prev \<and> is_digit d then drop_underscores False cs else None)
      else map_option (Cons c) (drop_underscores (is_digit c) cs))"

text \<open>An optional sign in front of the rest.\<close>

definition split_sign :: "string \<Rightarrow> bool \<times> string" where
  "split_sign s =
     (case s of
        [] \<Rightarrow> (False, [])
      | c # cs \<Rightarrow>
          if c = CHR ''-'' then (True, cs)
          else if c = CHR ''+'' then (False, cs)
          else (False, s))"

text \<open>\<^verbatim>\<open>int(s)\<close> for a string, base ten: surrounding space, a sign, digits.  \<open>None\<close> is
  \<^verbatim>\<open>ValueError\<close>.  The interpreter also refuses a string of too many digits:
  \<open>lim\<close> is its \<^verbatim>\<open>sys.get_int_max_str_digits()\<close>, 4300 unless configured and 0 for no
  limit (as in the interpreters older than the limit); with a limit \<open>lim\<close>, a string of
  more than 640 and more than \<open>lim\<close> digits raises \<^verbatim>\<open>ValueError\<close>.  Leading zeros
  count as digits, underscores and the sign do not.\<close>

definition py_int :: "nat \<Rightarrow> string \<Rightarrow> int option" where
  "py_int lim s =
     (case drop_underscores False (strip s) of
        None \<Rightarrow> None
      | Some t \<Rightarrow>
          (let (neg, ds) = split_sign t in
           if ds \<noteq> [] \<and> list_all is_digit ds \<and> (lim = 0 \<or> length ds \<le> max 640 lim)
           then Some (if neg then - int (digits_val ds) else int (digits_val ds))
           else None))"

text \<open>\<^verbatim>\<open>n.bit_length()\<close> of a natural number.\<close>

fun bit_length :: "nat \<Rightarrow> nat" where
  "bit_length n = (if n = 0 then 0 else Suc (bit_length (n div 2)))"

declare bit_length.simps [simp del]

text \<open>Decimal text becomes a float by correct rounding: \<open>to_double n d\<close> is the binary64
  value nearest to the fraction \<open>n / d\<close> (\<open>d\<close> positive), ties to the even mantissa.  The
  mantissa has 53 bits, the least exponent of a unit in the last place is -1074, and a
  result of \<open>2 ^ 1024\<close> or more is infinite.\<close>

definition floor_log2 :: "nat \<Rightarrow> nat \<Rightarrow> int" where
  "floor_log2 n d =
     (let e0 = int (bit_length n) - int (bit_length d) in
      if (if 0 \<le> e0 then d * 2 ^ nat e0 \<le> n else d \<le> n * 2 ^ nat (- e0))
      then e0 else e0 - 1)"

definition round_half_even :: "nat \<Rightarrow> nat \<Rightarrow> nat" where
  "round_half_even n d =
     (let q = n div d; r = n mod d in
      if 2 * r < d then q
      else if d < 2 * r then q + 1
      else if even q then q else q + 1)"

definition to_double :: "nat \<Rightarrow> nat \<Rightarrow> pyfloat" where
  "to_double n d =
     (if n = 0 then Finite 0 0
      else
        (let q = max (floor_log2 n d - 52) (- 1074);
             m = (if 0 \<le> q then round_half_even n (d * 2 ^ nat q)
                  else round_half_even (n * 2 ^ nat (- q)) d)
         in if 971 \<le> q \<and> 2 ^ 1024 \<le> m * 2 ^ nat q then PosInf else Finite (int m) q))"

definition negate :: "pyfloat \<Rightarrow> pyfloat" where
  "negate f =
     (case f of
        Finite m e \<Rightarrow> Finite (- m) e
      | PosInf \<Rightarrow> NegInf
      | NegInf \<Rightarrow> PosInf
      | NaN \<Rightarrow> NaN)"

definition lower :: "char \<Rightarrow> char" where
  "lower c =
     (let n = (of_char c :: nat) in if 65 \<le> n \<and> n \<le> 90 then char_of (n + 32) else c)"

text \<open>The decimal part of the grammar of \<^verbatim>\<open>float(s)\<close>: digits, an optional point and
  more digits (at least one digit in all), an optional exponent.\<close>

definition decimal :: "string \<Rightarrow> pyfloat option" where
  "decimal body =
     (let ip = takeWhile is_digit body;
          r1 = dropWhile is_digit body;
          dot = (r1 \<noteq> [] \<and> hd r1 = CHR ''.'');
          fp = (if dot then takeWhile is_digit (tl r1) else []);
          r2 = (if dot then dropWhile is_digit (tl r1) else r1)
      in
      if ip = [] \<and> fp = [] then None
      else
        (let ex =
           (if r2 = [] then Some 0
            else if hd r2 = CHR ''e'' \<or> hd r2 = CHR ''E'' then
              (let (eneg, eds) = split_sign (tl r2) in
               if eds \<noteq> [] \<and> list_all is_digit eds
               then Some (if eneg then - int (digits_val eds) else int (digits_val eds))
               else None)
            else None)
         in
         case ex of
           None \<Rightarrow> None
         | Some x \<Rightarrow>
             (let k = x - int (length fp); mant = digits_val (ip @ fp) in
              Some (if 0 \<le> k then to_double (mant * 10 ^ nat k) 1
                    else to_double mant (10 ^ nat (- k))))))"

text \<open>\<^verbatim>\<open>float(s)\<close> for a string.  \<open>None\<close> is \<^verbatim>\<open>ValueError\<close>.\<close>

definition py_float :: "string \<Rightarrow> pyfloat option" where
  "py_float s =
     (case drop_underscores False (strip s) of
        None \<Rightarrow> None
      | Some t \<Rightarrow>
          (let (neg, body) = split_sign t; word = map lower body in
           map_option (\<lambda>f. if neg then negate f else f)
             (if word = ''inf'' \<or> word = ''infinity'' then Some PosInf
              else if word = ''nan'' then Some NaN
              else decimal body)))"

section \<open>json.loads\<close>

text \<open>
  \<^verbatim>\<open>json.loads\<close> belongs to the interpreter, not to the bridge, and in the model of the
  bridge below it is a parameter.  This section writes the decoder out for the sample
  runs: the decoder of the standard library as the bridge calls it (no options), in an
  interpreter with the default limit of 4300 digits, on documents that stay within the
  interpreter's recursion limit.  A document is a value between optional blanks, nothing
  after it.  Numbers without fraction and exponent are ints, the others floats read by
  \<open>py_float\<close>; the constants \<^verbatim>\<open>NaN\<close>, \<^verbatim>\<open>Infinity\<close> and \<^verbatim>\<open>-Infinity\<close> are accepted;
  control characters inside a string are refused.  A \<^verbatim>\<open>\u\<close> escape above 255 names a
  character the texts of the model do not have; it is read as a question mark.
\<close>

definition is_json_ws :: "char \<Rightarrow> bool" where
  "is_json_ws c = (c \<in> set [CHR 0x20, CHR 0x09, CHR 0x0A, CHR 0x0D])"

definition skip_ws :: "string \<Rightarrow> string" where
  "skip_ws s = dropWhile is_json_ws s"

definition is_hex :: "char \<Rightarrow> bool" where
  "is_hex c = (c \<in> set ''0123456789abcdefABCDEF'')"

definition hex_val :: "char \<Rightarrow> nat" where
  "hex_val c = length (takeWhile (\<lambda>d. d \<noteq> lower c) ''0123456789abcdef'')"

definition code_point :: "string \<Rightarrow> char" where
  "code_point hs =
     (let n = foldl (\<lambda>acc c. 16 * acc + hex_val c) 0 hs in
      if n < 256 then char_of n else CHR ''?'')"

definition unescape :: "char \<Rightarrow> char option" where
  "unescape e =
     (if e = CHR 0x22 then Some (CHR 0x22)
      else if e = CHR 0x5C then Some (CHR 0x5C)
      else if e = CHR ''/'' then Some (CHR ''/'')
      else if e = CHR ''b'' then Some (CHR 0x08)
      else if e = CHR ''f'' then Some (CHR 0x0C)
      else if e = CHR ''n'' then Some (CHR 0x0A)
      else if e = CHR ''r'' then Some (CHR 0x0D)
      else if e = CHR ''t'' then Some (CHR 0x09)
      else None)"

text \<open>The body of a string, after its opening quote: the text and what follows the
  closing quote.\<close>

fun scanstring :: "string \<Rightarrow> (string \<times> string) option" where
  "scanstring [] = None"
| "scanstring (c # cs) =
     (if c = CHR 0x22 then Some ([], cs)
      else if c = CHR 0x5C then
        (case cs of
           [] \<Rightarrow> None
         | e # r \<Rightarrow>
             if e = CHR ''u'' then
               (if length (take 4 r) = 4 \<and> list_all is_hex (take 4 r)
                then map_option (\<lambda>(s, r'). (code_point (take 4 r) # s, r'))
                       (scanstring (drop 4 r))
                else None)
             else
               (case unescape e of
                  None \<Rightarrow> None
                | Some ch \<Rightarrow> map_option (\<lambda>(s, r'). (ch # s, r')) (scanstring r)))
      else if (of_char c :: nat) < 32 then None
      else map_option (\<lambda>(s, r'). (c # s, r')) (scanstring cs))"

text \<open>A number: \<^verbatim>\<open>-?(0|[1-9][0-9]*)(\.[0-9]+)?([eE][-+]?[0-9]+)?\<close>, the longest match.\<close>

definition scan_number :: "string \<Rightarrow> (json \<times> string) option" where
  "scan_number cs =
     (let r0 = (if cs \<noteq> [] \<and> hd cs = CHR ''-'' then tl cs else cs) in
      if r0 = [] \<or> \<not> is_digit (hd r0) then None
      else
        (let r1 = (if hd r0 = CHR ''0'' then tl r0 else dropWhile is_digit r0);
             frac = (r1 \<noteq> [] \<and> hd r1 = CHR ''.'' \<and> takeWhile is_digit (tl r1) \<noteq> []);
             r2 = (if frac then dropWhile is_digit (tl r1) else r1);
             ds = (if r2 \<noteq> [] \<and> (hd r2 = CHR ''e'' \<or> hd r2 = CHR ''E'')
                   then snd (split_sign (tl r2)) else []);
             expo = (takeWhile is_digit ds \<noteq> []);
             r3 = (if expo then dropWhile is_digit ds else r2);
             lit = take (length cs - length r3) cs
         in
         if frac \<or> expo then map_option (\<lambda>f. (JFloat f, r3)) (py_float lit)
         else map_option (\<lambda>n. (JInt n, r3)) (py_int 4300 lit)))"

definition starts_with :: "string \<Rightarrow> string \<Rightarrow> bool" where
  "starts_with w cs = (take (length w) cs = w)"

text \<open>The decoder recurses into arrays and objects.  The first argument bounds the
  depth of that recursion; \<open>json_loads\<close> starts it high enough for the whole text
  (every call consumes a character).  \<open>parse_array\<close> reads the elements of an array
  after its bracket, \<open>parse_object\<close> the members of an object after its brace.\<close>

fun parse_value :: "nat \<Rightarrow> string \<Rightarrow> (json \<times> string) option"
  and parse_array :: "nat \<Rightarrow> string \<Rightarrow> (json list \<times> string) option"
  and parse_object :: "nat \<Rightarrow> string \<Rightarrow> ((string \<times> json) list \<times> string) option"
where
  "parse_value n cs =
     (if n = 0 \<or> cs = [] then None
      else if hd cs = CHR 0x22 then
        map_option (\<lambda>(s, r). (JStr s, r)) (scanstring (tl cs))
      else if hd cs = CHR ''{'' then
        (let r = skip_ws (tl cs) in
         if r \<noteq> [] \<and> hd r = CHR ''}'' then Some (JObj [], tl r)
         else map_option (\<lambda>(kvs, r'). (JObj kvs, r')) (parse_object (n - 1) r))
      else if hd cs = CHR ''['' then
        (let r = skip_ws (tl cs) in
         if r \<noteq> [] \<and> hd r = CHR '']'' then Some (JList [], tl r)
         else map_option (\<lambda>(vs, r'). (JList vs, r')) (parse_array (n - 1) r))
      else if starts_with ''null'' cs then Some (JNull, drop 4 cs)
      else if starts_with ''true'' cs then Some (JBool True, drop 4 cs)
      else if starts_with ''false'' cs then Some (JBool False, drop 5 cs)
      else
        (case scan_number cs of
           Some x \<Rightarrow> Some x
         | None \<Rightarrow>
             if starts_with ''NaN'' cs then Some (JFloat NaN, drop 3 cs)
             else if starts_with ''Infinity'' cs then Some (JFloat PosInf, drop 8 cs)
             else if starts_with ''-Infinity'' cs then Some (JFloat NegInf, drop 9 cs)
             else None))"
| "parse_array n cs =
     (if n = 0 then None
      else
        (case parse_value (n - 1) cs of
           None \<Rightarrow> None
         | Some (v, r) \<Rightarrow>
             (let r1 = skip_ws r in
              if r1 = [] then None
              else if hd r1 = CHR '','' then
                map_option (\<lambda>(vs, r'). (v # vs, r')) (parse_array (n - 1) (skip_ws (tl r1)))
              else if hd r1 = CHR '']'' then Some ([v], tl r1)
              else None)))"
| "parse_object n cs =
     (if n = 0 \<or> cs = [] \<or> hd cs \<noteq> CHR 0x22 then None
      else
        (case scanstring (tl cs) of
           None \<Rightarrow> None
         | Some (k, r) \<Rightarrow>
             (let r1 = skip_ws r in
              if r1 = [] \<or> hd r1 \<noteq> CHR '':'' then None
              else
                (case parse_value (n - 1) (skip_ws (tl r1)) of
                   None \<Rightarrow> None
                 | Some (v, r2) \<Rightarrow>
                     (let r3 = skip_ws r2 in
                      if r3 = [] then None
                      else if hd r3 = CHR '','' then
                        map_option (\<lambda>(kvs, r'). ((k, v) # kvs, r'))
                          (parse_object (n - 1) (skip_ws (tl r3)))
                      else if hd r3 = CHR ''}'' then Some ([(k, v)], tl r3)
                      else None)))))"

declare parse_value.simps [simp del] parse_array.simps [simp del] parse_object.simps [simp del]

definition json_loads :: "string \<Rightarrow> json option" where
  "json_loads s =
     (case parse_value (2 * length s + 2) (skip_ws s) of
        None \<Rightarrow> None
      | Some (v, r) \<Rightarrow> if skip_ws r = [] then Some v else None)"

section \<open>The serial link: ModbusConnection\<close>

text \<open>
  Every call the bridge makes on the pymodbus client is a \<open>request\<close>; the field \<open>bus\<close>
  of the state keeps them in the order they were made.  The arguments are recorded as the
  client receives them: \<open>ReadHolding address count slave\<close>,
  \<open>WriteRegisters address values slave\<close>, \<open>WriteRegister address value slave\<close>.
  Registers are 16-bit cells.
\<close>

datatype request =
    ReadHolding int int int
  | WriteRegisters int "json list" int
  | WriteRegister int int int
  | SerialTest
  | ClientConnect

text \<open>What the client answers: a response object (registers, or one whose
  \<^verbatim>\<open>isError()\<close> is true), or an exception.\<close>

datatype read_reply = Registers "16 word list" | ReadError | ReadRaises

datatype write_reply = WriteOk | WriteError | WriteRaises

datatype connect_reply = Connected | Refused | ConnectRaises

text \<open>The world outside the bridge is a parameter.  The client library, with the wire
  and the motor controller behind it, answers each request, knowing the requests made
  before it; \<open>on_serial\<close> says whether the plain serial port opens.  The interpreter
  contributes \<open>loads\<close>, its \<^verbatim>\<open>json.loads\<close> (\<open>None\<close> when the call raises, whatever
  the exception: a document that is not JSON, an integer literal beyond the digit limit,
  a nesting beyond the recursion limit), and \<open>max_str_digits\<close>, the digit limit of
  \<^verbatim>\<open>int()\<close>.\<close>

record environment =
  on_read :: "request list \<Rightarrow> request \<Rightarrow> read_reply"
  on_write :: "request list \<Rightarrow> request \<Rightarrow> write_reply"
  on_serial :: "request list \<Rightarrow> bool"
  on_connect :: "request list \<Rightarrow> connect_reply"
  loads :: "string \<Rightarrow> json option"
  max_str_digits :: nat

text \<open>The topics the bridge publishes on,
  \<^verbatim>\<open>stepper/stepper{slave_id}/axis/{axis}/status\<close>, \<^verbatim>\<open>.../position\<close> and \<^verbatim>\<open>.../ack\<close>,
  each with the slave id and the axis; the payload is the value handed to
  \<^verbatim>\<open>json.dumps\<close>.\<close>

datatype out_topic = StatusTopic int int | PositionTopic int int | AckTopic int int

text \<open>The state of a \<^verbatim>\<open>StepperMQTTController\<close> with its \<^verbatim>\<open>ModbusConnection\<close>:
  \<open>modbus_connected\<close> is the link's \<^verbatim>\<open>_connected\<close>, \<open>status_connected\<close> and
  \<open>status_error\<close> are the entries of \<^verbatim>\<open>self.status\<close>, \<open>position_0\<close> and \<open>position_1\<close>
  those of \<^verbatim>\<open>self.positions\<close>; \<open>poll_count\<close> is the counter of the polling loop.  The
  lock, the debug flags and the log are left out: the handlers are modelled one at a time,
  and logging changes nothing.  The MQTT client exists from \<^verbatim>\<open>start()\<close> on, before
  any handler can run, so \<^verbatim>\<open>publish\<close> always sends.\<close>

record bridge =
  slave_id :: int
  running :: bool
  poll_count :: nat
  modbus_connected :: bool
  status_connected :: bool
  status_error :: "string option"
  position_0 :: int
  position_1 :: int
  bus :: "request list"
  published :: "(out_topic \<times> json) list"

definition publish :: "out_topic \<Rightarrow> json \<Rightarrow> bridge \<Rightarrow> bridge" where
  "publish t v st = st\<lparr>published := published st @ [(t, v)]\<rparr>"

definition send :: "request \<Rightarrow> bridge \<Rightarrow> bridge" where
  "send r st = st\<lparr>bus := bus st @ [r]\<rparr>"

text \<open>\<^verbatim>\<open>ModbusConnection.read_registers(address, count, slave_id)\<close>: \<open>None\<close> when the
  link is not connected or the response is an error.\<close>

definition read_registers ::
  "environment \<Rightarrow> int \<Rightarrow> int \<Rightarrow> int \<Rightarrow> bridge \<Rightarrow> bridge \<times> (exn + 16 word list option)" where
  "read_registers env address count slave st =
     (if \<not> modbus_connected st then (st, Inr None)
      else
        (case on_read env (bus st) (ReadHolding address count slave) of
           Registers ws \<Rightarrow> (send (ReadHolding address count slave) st, Inr (Some ws))
         | ReadError \<Rightarrow> (send (ReadHolding address count slave) st, Inr None)
         | ReadRaises \<Rightarrow> (send (ReadHolding address count slave) st, Inl ModbusException)))"

text \<open>\<^verbatim>\<open>ModbusConnection.write_registers(address, values, slave_id)\<close>: \<open>True\<close> when the
  response is not an error.\<close>

definition write_registers ::
  "environment \<Rightarrow> int \<Rightarrow> json list \<Rightarrow> int \<Rightarrow> bridge \<Rightarrow> bridge \<times> (exn + bool)" where
  "write_registers env address vals slave st =
     (if \<not> modbus_connected st then (st, Inr False)
      else
        (case on_write env (bus st) (WriteRegisters address vals slave) of
           WriteOk \<Rightarrow> (send (WriteRegisters address vals slave) st, Inr True)
         | WriteError \<Rightarrow> (send (WriteRegisters address vals slave) st, Inr False)
         | WriteRaises \<Rightarrow> (send (WriteRegisters address vals slave) st, Inl ModbusException)))"

text \<open>\<^verbatim>\<open>ModbusConnection.write_register(address, value, slave_id)\<close>: \<open>False\<close> when the
  link is not connected, otherwise \<^verbatim>\<open>result.isError()\<close> as it stands.\<close>

definition write_register ::
  "environment \<Rightarrow> int \<Rightarrow> int \<Rightarrow> int \<Rightarrow> bridge \<Rightarrow> bridge \<times> (exn + bool)" where
  "write_register env address val slave st =
     (if \<not> modbus_connected st then (st, Inr False)
      else
        (case on_write env (bus st) (WriteRegister address val slave) of
           WriteOk \<Rightarrow> (send (WriteRegister address val slave) st, Inr False)
         | WriteError \<Rightarrow> (send (WriteRegister address val slave) st, Inr True)
         | WriteRaises \<Rightarrow> (send (WriteRegister address val slave) st, Inl ModbusException)))"

text \<open>\<^verbatim>\<open>ModbusConnection.is_connected()\<close>: a live read of one register at address 0 of
  slave 1; a failure clears \<^verbatim>\<open>_connected\<close>.\<close>

definition is_connected :: "environment \<Rightarrow> bridge \<Rightarrow> bridge \<times> bool" where
  "is_connected env st =
     (if \<not> modbus_connected st then (st, False)
      else
        (case on_read env (bus st) (ReadHolding 0 1 1) of
           Registers ws \<Rightarrow> (send (ReadHolding 0 1 1) st, True)
         | _ \<Rightarrow> ((send (ReadHolding 0 1 1) st)\<lparr>modbus_connected := False\<rparr>, False)))"

text \<open>\<^verbatim>\<open>ModbusConnection.connect()\<close>: nothing to do when connected; otherwise the serial
  port is opened and closed as a test, then the client connects.\<close>

definition connect :: "environment \<Rightarrow> bridge \<Rightarrow> bridge \<times> bool" where
  "connect env st =
     (if modbus_connected st then (st, True)
      else if \<not> on_serial env (bus st) then (send SerialTest st, False)
      else
        (case on_connect env (bus st @ [SerialTest]) of
           Connected \<Rightarrow>
             ((send ClientConnect (send SerialTest st))\<lparr>modbus_connected := True\<rparr>, True)
         | _ \<Rightarrow> (send ClientConnect (send SerialTest st), False)))"

section \<open>The axis handlers: StepperMQTTController.Axis\<close>

text \<open>
  Each handler returns the new state and either the exception that left it or the value
  it returned.  An exception leaves the handler at the point where it arises: what was
  sent before stays sent, and the acknowledgment after it is not published.
\<close>

definition ack :: "int \<Rightarrow> (string \<times> json) list \<Rightarrow> bridge \<Rightarrow> bridge" where
  "ack axis_id body st = publish (AckTopic (slave_id st) axis_id) (JObj body) st"

text \<open>\<^verbatim>\<open>Axis._move_absolute(params)\<close>.\<close>

definition axis_move_absolute ::
  "environment \<Rightarrow> int \<Rightarrow> json \<Rightarrow> bridge \<Rightarrow> bridge \<times> (exn + bool)" where
  "axis_move_absolute env axis_id params st =
     (case params of
        JObj kvs \<Rightarrow>
          (let target = dict_get kvs ''position'' (JInt 0) in
           case py_index target of
             Inl e \<Rightarrow> (st, Inl e)
           | Inr t \<Rightarrow>
               (let target_low = t AND 0xFFFF;
                    target_high = drop_bit 16 t AND 0xFFFF;
                    speed = dict_get kvs ''speed'' (JInt 1000);
                    accel = dict_get kvs ''acceleration'' (JInt 1000);
                    decel = dict_get kvs ''deceleration'' (JInt 1000)
                in
                case write_registers env 0
                       [JInt 0x0102, JInt axis_id, JInt target_low, JInt target_high,
                        JInt 0, JInt 0, speed, accel, decel]
                       (slave_id st) st of
                  (st', Inl e) \<Rightarrow> (st', Inl e)
                | (st', Inr result) \<Rightarrow>
                    (ack axis_id
                       [(''command'', JStr ''move_absolute''),
                        (''success'', JBool result),
                        (''params'',
                         JObj [(''target'', target), (''speed'', speed),
                               (''accel'', accel), (''decel'', decel)])]
                       st',
                     Inr result)))
      | _ \<Rightarrow> (st, Inl AttributeError))"

text \<open>\<^verbatim>\<open>Axis._move_relative(params)\<close>.  The handler reads its parameters with
  \<^verbatim>\<open>params.get\<close>, which raises \<^verbatim>\<open>AttributeError\<close> on anything but a dict, and then
  calls \<^verbatim>\<open>self.parent.modbus.write_multiple_registers\<close>.  \<^verbatim>\<open>ModbusConnection\<close> has
  the methods \<^verbatim>\<open>connect\<close>, \<^verbatim>\<open>disconnect\<close>, \<^verbatim>\<open>is_connected\<close>, \<^verbatim>\<open>read_registers\<close>,
  \<^verbatim>\<open>write_registers\<close> and \<^verbatim>\<open>write_register\<close> and no other, so this attribute lookup
  raises \<^verbatim>\<open>AttributeError\<close> too, before anything is sent: on every path the handler
  ends in that exception with the state as it was.\<close>

definition axis_move_relative ::
  "environment \<Rightarrow> int \<Rightarrow> json \<Rightarrow> bridge \<Rightarrow> bridge \<times> (exn + bool)" where
  "axis_move_relative env axis_id params st = (st, Inl AttributeError)"

text \<open>The five handlers that write one register.  Each passes
  \<^verbatim>\<open>(self.parent.slave_id, n, m)\<close> to \<^verbatim>\<open>write_register(address, value, slave_id)\<close>.\<close>

definition single_write ::
  "environment \<Rightarrow> int \<Rightarrow> string \<Rightarrow> int \<Rightarrow> int \<Rightarrow> bridge \<Rightarrow> bridge \<times> (exn + bool)" where
  "single_write env axis_id command n m st =
     (case write_register env (slave_id st) n m st of
        (st', Inl e) \<Rightarrow> (st', Inl e)
      | (st', Inr result) \<Rightarrow>
          (ack axis_id [(''command'', JStr command), (''success'', JBool result)] st',
           Inr result))"

text \<open>\<^verbatim>\<open>Axis._home_axis(params)\<close>: direction and speed are read and logged; the write
  does not carry them.\<close>

definition axis_home_axis ::
  "environment \<Rightarrow> int \<Rightarrow> json \<Rightarrow> bridge \<Rightarrow> bridge \<times> (exn + bool)" where
  "axis_home_axis env axis_id params st =
     (case params of
        JObj kvs \<Rightarrow> single_write env axis_id ''home'' 0 1 st
      | _ \<Rightarrow> (st, Inl AttributeError))"

definition axis_stop_axis :: "environment \<Rightarrow> int \<Rightarrow> bridge \<Rightarrow> bridge \<times> (exn + bool)" where
  "axis_stop_axis env axis_id st = single_write env axis_id ''stop'' 0 0 st"

definition axis_enable_axis :: "environment \<Rightarrow> int \<Rightarrow> bridge \<Rightarrow> bridge \<times> (exn + bool)" where
  "axis_enable_axis env axis_id st = single_write env axis_id ''enable'' 4 1 st"

definition axis_disable_axis :: "environment \<Rightarrow> int \<Rightarrow> bridge \<Rightarrow> bridge \<times> (exn + bool)" where
  "axis_disable_axis env axis_id st = single_write env axis_id ''disable'' 4 0 st"

definition axis_reset_axis :: "environment \<Rightarrow> int \<Rightarrow> bridge \<Rightarrow> bridge \<times> (exn + bool)" where
  "axis_reset_axis env axis_id st = single_write env axis_id ''reset'' 5 1 st"

text \<open>\<^verbatim>\<open>Axis._enable_servo_mode(params)\<close>.\<close>

definition axis_enable_servo_mode ::
  "environment \<Rightarrow> int \<Rightarrow> json \<Rightarrow> bridge \<Rightarrow> bridge \<times> (exn + bool)" where
  "axis_enable_servo_mode env axis_id params st =
     (case params of
        JObj kvs \<Rightarrow>
          (let max_speed = dict_get kvs ''max_speed'' (JInt 5000);
               accel = dict_get kvs ''acceleration'' (JInt 1000)
           in
           case write_registers env 0 [JInt 0x0201, JInt axis_id, max_speed, accel]
                  (slave_id st) st of
             (st', Inl e) \<Rightarrow> (st', Inl e)
           | (st', Inr result) \<Rightarrow>
               (ack axis_id
                  [(''command'', JStr ''enable_servo_mode''),
                   (''success'', JBool result),
                   (''params'', JObj [(''max_speed'', max_speed), (''acceleration'', accel)])]
                  st',
                Inr result))
      | _ \<Rightarrow> (st, Inl AttributeError))"

text \<open>\<^verbatim>\<open>Axis._disable_servo_mode(params)\<close>: the parameters are not looked at.\<close>

definition axis_disable_servo_mode ::
  "environment \<Rightarrow> int \<Rightarrow> json \<Rightarrow> bridge \<Rightarrow> bridge \<times> (exn + bool)" where
  "axis_disable_servo_mode env axis_id params st =
     (case write_registers env 0 [JInt 0x0202, JInt axis_id] (slave_id st) st of
        (st', Inl e) \<Rightarrow> (st', Inl e)
      | (st', Inr result) \<Rightarrow>
          (ack axis_id
             [(''command'', JStr ''disable_servo_mode''), (''success'', JBool result)] st',
           Inr result))"

text \<open>\<^verbatim>\<open>Axis._set_servo_speed(params)\<close>.  \<open>servo_speed_write\<close> is its second half, from
  the lock on, for the speed the first half settled on.  An int (or bool) stays as it is;
  a float goes through \<^verbatim>\<open>int(speed)\<close>, whose exceptions leave the handler; a string
  goes through \<^verbatim>\<open>int(float(speed))\<close> inside \<^verbatim>\<open>try ... except ValueError\<close>, which
  returns \<open>False\<close>; any other value stays as it is.\<close>

definition servo_speed_write ::
  "environment \<Rightarrow> int \<Rightarrow> json \<Rightarrow> bridge \<Rightarrow> bridge \<times> (exn + bool)" where
  "servo_speed_write env axis_id speed st =
     (case write_registers env 0 [JInt 0x0203, JInt axis_id, speed] (slave_id st) st of
        (st', Inl e) \<Rightarrow> (st', Inl e)
      | (st', Inr result) \<Rightarrow>
          (ack axis_id
             [(''command'', JStr ''set_servo_speed''),
              (''success'', JBool result),
              (''params'', JObj [(''speed'', speed)])]
             st',
           Inr result))"

definition axis_set_servo_speed ::
  "environment \<Rightarrow> int \<Rightarrow> json \<Rightarrow> bridge \<Rightarrow> bridge \<times> (exn + bool)" where
  "axis_set_servo_speed env axis_id params st =
     (case params of
        JObj kvs \<Rightarrow>
          (case dict_get kvs ''speed'' (JInt 0) of
             JFloat f \<Rightarrow>
               (case py_int_of_float f of
                  Inl e \<Rightarrow> (st, Inl e)
                | Inr n \<Rightarrow> servo_speed_write env axis_id (JInt n) st)
           | JStr s \<Rightarrow>
               (case py_float s of
                  None \<Rightarrow> (st, Inr False)
                | Some f \<Rightarrow>
                    (case py_int_of_float f of
                       Inl e \<Rightarrow> if e = ValueError then (st, Inr False) else (st, Inl e)
                     | Inr n \<Rightarrow> servo_speed_write env axis_id (JInt n) st))
           | speed \<Rightarrow> servo_speed_write env axis_id speed st)
      | _ \<Rightarrow> (st, Inl AttributeError))"

section \<open>The controller: delegation and dispatch\<close>

text \<open>The controller owns \<^verbatim>\<open>Axis(self, 0)\<close> and \<^verbatim>\<open>Axis(self, 1)\<close>.  The seven
  delegation methods refuse any other axis id; the three servo methods send every axis
  id but 0 to axis 1.\<close>

definition move_absolute :: "environment \<Rightarrow> int \<Rightarrow> json \<Rightarrow> bridge \<Rightarrow> bridge \<times> (exn + bool)" where
  "move_absolute env axis_id params st =
     (if axis_id = 0 then axis_move_absolute env 0 params st
      else if axis_id = 1 then axis_move_absolute env 1 params st
      else (st, Inr False))"

definition move_relative :: "environment \<Rightarrow> int \<Rightarrow> json \<Rightarrow> bridge \<Rightarrow> bridge \<times> (exn + bool)" where
  "move_relative env axis_id params st =
     (if axis_id = 0 then axis_move_relative env 0 params st
      else if axis_id = 1 then axis_move_relative env 1 params st
      else (st, Inr False))"

definition home_axis :: "environment \<Rightarrow> int \<Rightarrow> json \<Rightarrow> bridge \<Rightarrow> bridge \<times> (exn + bool)" where
  "home_axis env axis_id params st =
     (if axis_id = 0 then axis_home_axis env 0 params st
      else if axis_id = 1 then axis_home_axis env 1 params st
      else (st, Inr False))"

definition stop_axis :: "environment \<Rightarrow> int \<Rightarrow> bridge \<Rightarrow> bridge \<times> (exn + bool)" where
  "stop_axis env axis_id st =
     (if axis_id = 0 then axis_stop_axis env 0 st
      else if axis_id = 1 then axis_stop_axis env 1 st
      else (st, Inr False))"

definition enable_axis :: "environment \<Rightarrow> int \<Rightarrow> bridge \<Rightarrow> bridge \<times> (exn + bool)" where
  "enable_axis env axis_id st =
     (if axis_id = 0 then axis_enable_axis env 0 st
      else if axis_id = 1 then axis_enable_axis env 1 st
      else (st, Inr False))"

definition disable_axis :: "environment \<Rightarrow> int \<Rightarrow> bridge \<Rightarrow> bridge \<times> (exn + bool)" where
  "disable_axis env axis_id st =
     (if axis_id = 0 then axis_disable_axis env 0 st
      else if axis_id = 1 then axis_disable_axis env 1 st
      else (st, Inr False))"

definition reset_axis :: "environment \<Rightarrow> int \<Rightarrow> bridge \<Rightarrow> bridge \<times> (exn + bool)" where
  "reset_axis env axis_id st =
     (if axis_id = 0 then axis_reset_axis env 0 st
      else if axis_id = 1 then axis_reset_axis env 1 st
      else (st, Inr False))"

definition enable_servo_mode ::
  "environment \<Rightarrow> int \<Rightarrow> json \<Rightarrow> bridge \<Rightarrow> bridge \<times> (exn + bool)" where
  "enable_servo_mode env axis_id params st =
     axis_enable_servo_mode env (if axis_id = 0 then 0 else 1)
       (if params = JNull then JObj [] else params) st"

definition disable_servo_mode :: "environment \<Rightarrow> int \<Rightarrow> bridge \<Rightarrow> bridge \<times> (exn + bool)" where
  "disable_servo_mode env axis_id st =
     axis_disable_servo_mode env (if axis_id = 0 then 0 else 1) (JObj []) st"

definition set_servo_speed ::
  "environment \<Rightarrow> int \<Rightarrow> json \<Rightarrow> bridge \<Rightarrow> bridge \<times> (exn + bool)" where
  "set_servo_speed env axis_id params st =
     (if \<not> py_truthy params then (st, Inr False)
      else axis_set_servo_speed env (if axis_id = 0 then 0 else 1) params st)"

text \<open>An inbound MQTT message.  \<open>payload\<close> is \<^verbatim>\<open>msg.payload.decode('utf-8')\<close>, or
  \<open>None\<close> when the bytes do not decode.\<close>

record mqtt_message =
  topic :: string
  payload :: "string option"

text \<open>The stepper id of a topic: its second segment without the word \<^verbatim>\<open>stepper\<close>,
  read by \<^verbatim>\<open>int()\<close>, 0 when that raises \<^verbatim>\<open>ValueError\<close>.\<close>

definition stepper_id_of :: "nat \<Rightarrow> string \<Rightarrow> int" where
  "stepper_id_of lim seg =
     (case py_int lim (remove_all ''stepper'' seg) of Some n \<Rightarrow> n | None \<Rightarrow> 0)"

text \<open>Two handlers in a row: an exception in the first skips the second.\<close>

definition both ::
  "(int \<Rightarrow> bridge \<Rightarrow> bridge \<times> (exn + bool)) \<Rightarrow> bridge \<Rightarrow> bridge \<times> (exn + bool)" where
  "both h st =
     (case h 0 st of
        (st', Inl e) \<Rightarrow> (st', Inl e)
      | (st', Inr r) \<Rightarrow> h 1 st')"

definition device_command :: "environment \<Rightarrow> string \<Rightarrow> bridge \<Rightarrow> bridge \<times> (exn + bool)" where
  "device_command env command st =
     (if command = ''enable'' then both (enable_axis env) st
      else if command = ''disable'' then both (disable_axis env) st
      else if command = ''reset'' then both (reset_axis env) st
      else (st, Inr False))"

definition axis_command ::
  "environment \<Rightarrow> string \<Rightarrow> int \<Rightarrow> json \<Rightarrow> bridge \<Rightarrow> bridge \<times> (exn + bool)" where
  "axis_command env command axis_id params st =
     (if command = ''move_absolute'' then move_absolute env axis_id params st
      else if command = ''move_relative'' then move_relative env axis_id params st
      else if command = ''home'' then home_axis env axis_id params st
      else if command = ''stop'' then stop_axis env axis_id st
      else if command = ''enable'' then enable_axis env axis_id st
      else if command = ''disable'' then disable_axis env axis_id st
      else if command = ''reset'' then reset_axis env axis_id st
      else if command = ''enable_servo'' then enable_servo_mode env axis_id params st
      else if command = ''disable_servo'' then disable_servo_mode env axis_id st
      else if command = ''servo_speed'' then set_servo_speed env axis_id params st
      else (st, Inr False))"

text \<open>\<^verbatim>\<open>_on_command(client, userdata, msg)\<close>.  The whole body stands in
  \<^verbatim>\<open>try ... except Exception\<close>, which logs: whatever a handler returns or raises, the
  callback ends with the state the handler left, and an exception of \<^verbatim>\<open>json.loads\<close>
  other than \<^verbatim>\<open>JSONDecodeError\<close> ends it like that one, with the state as it was.  The
  stepper id is an integer, so its comparison with \<^verbatim>\<open>'+'\<close> always finds them different
  and the test is the comparison with the slave id.\<close>

definition on_command :: "environment \<Rightarrow> bridge \<Rightarrow> mqtt_message \<Rightarrow> bridge" where
  "on_command env st msg =
     (case payload msg of
        None \<Rightarrow> st
      | Some payload_str \<Rightarrow>
          (let topic_parts = split_on CHR ''/'' (topic msg) in
           if length topic_parts < 3 then st
           else if stepper_id_of (max_str_digits env) (topic_parts ! 1) \<noteq> slave_id st then st
           else
             (case loads env payload_str of
                None \<Rightarrow> st
              | Some params \<Rightarrow>
                  if length topic_parts = 3 then
                    fst (device_command env (topic_parts ! 2) st)
                  else if 5 \<le> length topic_parts \<and> topic_parts ! 2 = ''axis'' then
                    (case py_int (max_str_digits env) (topic_parts ! 3) of
                       None \<Rightarrow> st
                     | Some axis_id \<Rightarrow>
                         fst (axis_command env
                                (if 6 \<le> length topic_parts \<and> topic_parts ! 4 = ''move''
                                 then ''move_'' @ topic_parts ! 5
                                 else topic_parts ! 4)
                                axis_id params st))
                  else st)))"

section \<open>Status polling\<close>

text \<open>The flags of the two axes in the status word, with the masks of \<^verbatim>\<open>_poll_status\<close>,
  and the values published when the status read gave nothing.\<close>

definition flag :: "16 word \<Rightarrow> 16 word \<Rightarrow> json" where
  "flag status_word m = JBool (status_word AND m \<noteq> 0)"

definition axis0_status :: "16 word \<Rightarrow> json" where
  "axis0_status w =
     JObj [(''limit_neg'', flag w 0x01), (''limit_pos'', flag w 0x02),
           (''is_moving'', flag w 0x04), (''is_done'', flag w 0x08),
           (''is_homed'', flag w 0x10), (''has_error'', flag w 0x20),
           (''is_servo_mode'', flag w 0x40)]"

definition axis1_status :: "16 word \<Rightarrow> json" where
  "axis1_status w =
     JObj [(''limit_neg'', flag w 0x0100), (''limit_pos'', flag w 0x0200),
           (''is_moving'', flag w 0x0400), (''is_done'', flag w 0x0800),
           (''is_homed'', flag w 0x1000), (''has_error'', flag w 0x2000),
           (''is_servo_mode'', flag w 0x4000)]"

definition default_status :: json where
  "default_status =
     JObj [(''limit_neg'', JBool False), (''limit_pos'', JBool False),
           (''is_moving'', JBool False), (''is_done'', JBool False),
           (''is_homed'', JBool False), (''has_error'', JBool False),
           (''is_servo_mode'', JBool False), (''is_stalled'', JBool False),
           (''is_enabled'', JBool False)]"

text \<open>\<^verbatim>\<open>(position_regs[1] << 16) | position_regs[0]\<close> on Python integers.\<close>

definition combine :: "16 word \<Rightarrow> 16 word \<Rightarrow> int" where
  "combine low high = push_bit 16 (uint high) OR uint low"

text \<open>The four messages at the end of a tick.\<close>

definition publish_all :: "json \<Rightarrow> json \<Rightarrow> bridge \<Rightarrow> bridge" where
  "publish_all status0 status1 st =
     publish (PositionTopic (slave_id st) 1) (JObj [(''position'', JInt (position_1 st))])
       (publish (PositionTopic (slave_id st) 0) (JObj [(''position'', JInt (position_0 st))])
          (publish (StatusTopic (slave_id st) 1) status1
             (publish (StatusTopic (slave_id st) 0) status0 st)))"

text \<open>The \<^verbatim>\<open>try\<close> block of one turn of the loop in \<^verbatim>\<open>_poll_status\<close>.  The status read
  is \<^verbatim>\<open>read_registers(1, STATUS_REG, slave_id)\<close> with \<^verbatim>\<open>STATUS_REG = 0x0D\<close>; a non-empty
  answer is decoded (\<open>decode_status\<close>), anything else gives the default flags.  The
  position registers of the two axes are adjacent (0x11 and 0x13), so they are read in
  one request of four registers, stored when exactly four come back
  (\<open>store_positions\<close>).\<close>

definition decode_status :: "16 word list option \<Rightarrow> bridge \<Rightarrow> json \<times> json \<times> bridge" where
  "decode_status status_values st =
     (case status_values of
        Some (status_word # ws) \<Rightarrow>
          (axis0_status status_word, axis1_status status_word,
           st\<lparr>status_connected := True,
              status_error :=
                (if status_word AND 0x20 \<noteq> 0 \<or> status_word AND 0x2000 \<noteq> 0
                 then Some ''Error detected'' else None)\<rparr>)
      | _ \<Rightarrow> (default_status, default_status, st))"

definition store_positions :: "16 word list option \<Rightarrow> bridge \<Rightarrow> bridge" where
  "store_positions position_regs st =
     (case position_regs of
        Some [r0, r1, r2, r3] \<Rightarrow> st\<lparr>position_0 := combine r0 r1, position_1 := combine r2 r3\<rparr>
      | _ \<Rightarrow> st)"

definition poll_try :: "environment \<Rightarrow> bridge \<Rightarrow> bridge \<times> (exn + unit)" where
  "poll_try env st =
     (case read_registers env 1 0x0D (slave_id st) (st\<lparr>poll_count := poll_count st + 1\<rparr>) of
        (st1, Inl e) \<Rightarrow> (st1, Inl e)
      | (st1, Inr status_values) \<Rightarrow>
          (case decode_status status_values st1 of
             (status0, status1, st2) \<Rightarrow>
               (case read_registers env 0x11 4 (slave_id st2) st2 of
                  (st3, Inl e) \<Rightarrow> (st3, Inl e)
                | (st3, Inr position_regs) \<Rightarrow>
                    (publish_all status0 status1 (store_positions position_regs st3), Inr ()))))"

text \<open>One turn of the loop: the \<^verbatim>\<open>try\<close> block, and the \<^verbatim>\<open>except Exception\<close> clause
  when it raised.\<close>

definition poll_once :: "environment \<Rightarrow> bridge \<Rightarrow> bridge" where
  "poll_once env st =
     (case poll_try env st of
        (st1, Inr u) \<Rightarrow> st1
      | (st1, Inl e) \<Rightarrow>
          (case is_connected env (st1\<lparr>status_connected := False\<rparr>) of
             (st2, True) \<Rightarrow> st2
           | (st2, False) \<Rightarrow>
               (case connect env st2 of
                  (st3, ok) \<Rightarrow> st3\<lparr>status_connected := ok\<rparr>)))"


section \<open>Start-up\<close>

text \<open>The controller as \<^verbatim>\<open>__init__\<close> leaves it, and \<^verbatim>\<open>start()\<close>.\<close>

definition init :: "int \<Rightarrow> bridge" where
  "init sid =
     \<lparr>slave_id = sid, running = False, poll_count = 0, modbus_connected = False,
      status_connected = False, status_error = None, position_0 = 0, position_1 = 0,
      bus = [], published = []\<rparr>"

definition start :: "environment \<Rightarrow> bridge \<Rightarrow> bridge \<times> bool" where
  "start env st =
     (case connect env st of
        (st1, ok) \<Rightarrow>
          if ok then (st1\<lparr>status_connected := True, running := True\<rparr>, True)
          else (st1\<lparr>status_connected := False\<rparr>, False))"

section \<open>Notions for the statements\<close>

text \<open>The requests that write one register.\<close>

definition single_register :: "request \<Rightarrow> bool" where
  "single_register r = (case r of WriteRegister a v u \<Rightarrow> True | _ \<Rightarrow> False)"

text \<open>Whether a read was answered with registers.\<close>

definition is_registers :: "read_reply \<Rightarrow> bool" where
  "is_registers r = (case r of Registers ws \<Rightarrow> True | _ \<Rightarrow> False)"

text \<open>The reading of two position registers that the specification describes, for
  comparison with \<open>combine\<close>: the 32 bits with the high word on top, read as a signed
  integer in two's complement.\<close>

definition signed_position :: "16 word \<Rightarrow> 16 word \<Rightarrow> int" where
  "signed_position low high = sint (word_cat high low :: 32 word)"

section \<open>Sample environments\<close>

text \<open>Environments for evaluating the model on concrete messages, all with the decoder
  \<open>json_loads\<close> and the default digit limit.  \<open>steady r w c\<close> answers every read with
  \<open>r\<close>, every write with \<open>w\<close> and every connection attempt with \<open>c\<close>; its serial port
  opens.  \<open>lost r\<close> lets the bridge connect once; after that every read is answered with
  \<open>r\<close> and no connection succeeds.  \<open>started env sid\<close> is the controller of slave \<open>sid\<close>
  after \<^verbatim>\<open>start()\<close>.\<close>

definition steady :: "read_reply \<Rightarrow> write_reply \<Rightarrow> connect_reply \<Rightarrow> environment" where
  "steady r w c =
     \<lparr>on_read = (\<lambda>h q. r), on_write = (\<lambda>h q. w), on_serial = (\<lambda>h. True),
      on_connect = (\<lambda>h. c), loads = json_loads, max_str_digits = 4300\<rparr>"

definition lost :: "read_reply \<Rightarrow> environment" where
  "lost r =
     \<lparr>on_read = (\<lambda>h q. r), on_write = (\<lambda>h q. WriteError), on_serial = (\<lambda>h. True),
      on_connect = (\<lambda>h. if ClientConnect \<in> set h then Refused else Connected),
      loads = json_loads, max_str_digits = 4300\<rparr>"

definition started :: "environment \<Rightarrow> int \<Rightarrow> bridge" where
  "started env sid = fst (start env (init sid))"

section \<open>Evaluation\<close>

text \<open>The definitions a concrete run unfolds, grouped for the simplifier.\<close>

lemmas int_defs = stepper_id_of_def py_int_def strip_def is_space_def split_sign_def
  is_digit_def digits_val_def digit_val_def

lemmas text_defs = skip_ws_def is_json_ws_def scan_number_def starts_with_def py_int_def
  py_float_def strip_def is_space_def split_sign_def decimal_def is_digit_def lower_def
  to_double_def floor_log2_def round_half_even_def digits_val_def digit_val_def
  bit_length.simps unescape_def is_hex_def hex_val_def code_point_def negate_def
  parse_value.simps parse_array.simps parse_object.simps json_loads_def Let_def

lemmas link_defs = read_registers_def write_registers_def write_register_def
  is_connected_def connect_def send_def publish_def

lemmas handler_defs = ack_def axis_move_absolute_def axis_move_relative_def single_write_def
  axis_home_axis_def axis_stop_axis_def axis_enable_axis_def axis_disable_axis_def
  axis_reset_axis_def axis_enable_servo_mode_def axis_disable_servo_mode_def
  servo_speed_write_def axis_set_servo_speed_def move_absolute_def move_relative_def
  home_axis_def stop_axis_def enable_axis_def disable_axis_def reset_axis_def
  enable_servo_mode_def disable_servo_mode_def set_servo_speed_def both_def
  device_command_def axis_command_def dict_get_def py_index_def py_truthy_def
  py_int_of_float_def trunc_float_def

lemmas fixture_defs = steady_def lost_def started_def start_def init_def


lemma json_loads_braces: "json_loads ''{}'' = Some (JObj [])"
  by (simp add: text_defs cong: let_weak_cong)

lemma json_loads_move:
  \<open>json_loads ''{"position":1000,"speed":500}'' =
     Some (JObj [(''position'', JInt 1000), (''speed'', JInt 500)])\<close>
  by (simp add: text_defs cong: let_weak_cong)

text \<open>\<^verbatim>\<open>int()\<close> on some strings: blanks and the no-break space around the digits are
  skipped, a separator of the range 0x1C..0x1F is not; a sign and single underscores
  between digits are read.\<close>

lemma py_int_examples:
  "py_int 4300 ''0'' = Some 0"
  "py_int 4300 '' 17 '' = Some 17"
  "py_int 4300 ''-1_0'' = Some (- 10)"
  "py_int 4300 [CHR 0xA0, CHR ''0''] = Some 0"
  "py_int 4300 [CHR ''1'', CHR 0x85] = Some 1"
  "py_int 4300 [CHR 0x1C, CHR ''0''] = None"
  "py_int 4300 ''1_'' = None"
  "py_int 4300 ''x'' = None"
  "py_int 4300 [] = None"
  by (simp_all add: int_defs)

lemma stepper_id_examples:
  "stepper_id_of 4300 ''1'' = 1"
  "stepper_id_of 4300 ''stepper7'' = 7"
  "stepper_id_of 4300 ''01'' = 1"
  "stepper_id_of 4300 ''pump'' = 0"
  "stepper_id_of 4300 [CHR 0xA0, CHR ''1''] = 1"
  "stepper_id_of 4300 [CHR 0x1C, CHR ''1''] = 0"
  by (simp_all add: int_defs)

text \<open>On a string of digits \<^verbatim>\<open>int()\<close> gives their value, unless the digit limit
  refuses it.\<close>

lemma digit_plain:
  "is_digit c \<Longrightarrow> \<not> is_space c \<and> c \<noteq> CHR ''_'' \<and> c \<noteq> CHR ''-'' \<and> c \<noteq> CHR ''+''"
  by (auto simp: is_digit_def is_space_def)

lemma digits_no_space: "list_all is_digit ds \<Longrightarrow> dropWhile is_space ds = ds"
  by (cases ds) (simp_all add: digit_plain)

lemma digits_strip: "list_all is_digit ds \<Longrightarrow> strip ds = ds"
proof -
  assume d: "list_all is_digit ds"
  then have "list_all is_digit (rev ds)"
    by (simp add: list_all_iff)
  with d show ?thesis
    by (simp add: strip_def digits_no_space)
qed

lemma digits_no_underscore:
  "list_all is_digit ds \<Longrightarrow> drop_underscores prev ds = Some ds"
  by (induction ds arbitrary: prev) (simp_all add: digit_plain)

lemma digits_no_sign: "ds \<noteq> [] \<Longrightarrow> list_all is_digit ds \<Longrightarrow> split_sign ds = (False, ds)"
  by (cases ds) (simp_all add: split_sign_def digit_plain)

lemma py_int_digits:
  assumes "ds \<noteq> []" and "list_all is_digit ds"
  shows "py_int lim ds =
    (if lim = 0 \<or> length ds \<le> max 640 lim then Some (int (digits_val ds)) else None)"
  using assms
  by (simp add: py_int_def digits_strip digits_no_underscore digits_no_sign)

lemma py_int_too_long: "py_int 4300 (replicate 4301 CHR ''0'') = None"
  using py_int_digits [of "replicate 4301 CHR ''0''" 4300]
  by (simp add: list_all_iff is_digit_def)

section \<open>Routing\<close>

text \<open>What \<open>on_command\<close> does with a topic of each of the three shapes, once the stepper
  id matches and the payload decodes.\<close>

lemma on_command_axis:
  assumes "payload msg = Some p" "loads env p = Some v"
    and "split_on CHR ''/'' (topic msg) = [root, seg, ''axis'', ax, c]"
    and "stepper_id_of (max_str_digits env) seg = slave_id st"
    and "py_int (max_str_digits env) ax = Some a"
  shows "on_command env st msg = fst (axis_command env c a v st)"
  using assms by (simp add: on_command_def)

lemma on_command_move:
  assumes "payload msg = Some p" "loads env p = Some v"
    and "split_on CHR ''/'' (topic msg) = [root, seg, ''axis'', ax, ''move'', sub]"
    and "stepper_id_of (max_str_digits env) seg = slave_id st"
    and "py_int (max_str_digits env) ax = Some a"
  shows "on_command env st msg = fst (axis_command env (''move_'' @ sub) a v st)"
  using assms by (simp add: on_command_def)


text \<open>
  Claim C8.  A message whose topic has fewer than three segments, or whose axis segment
  (the fourth) is not an integer for \<^verbatim>\<open>int()\<close>, or whose payload does not decode as
  JSON (the bytes are not text, or \<^verbatim>\<open>json.loads\<close> raises), is dropped: the callback
  leaves the state as it was, so nothing is executed, no request reaches the bus and
  nothing is published.
\<close>

theorem malformed_message_dropped:
  assumes "length (split_on CHR ''/'' (topic msg)) < 3
    \<or> (4 \<le> length (split_on CHR ''/'' (topic msg))
        \<and> py_int (max_str_digits env) (split_on CHR ''/'' (topic msg) ! 3) = None)
    \<or> Option.bind (payload msg) (loads env) = None"
  shows "on_command env st msg = st"
  using assms
  by (auto simp: on_command_def Let_def split: option.splits)

theorem malformed_message_dropped_witness:
  "length (split_on CHR ''/'' ''stepper/1'') < 3
   \<and> on_command (steady ReadError WriteOk Connected)
         (started (steady ReadError WriteOk Connected) 1)
         \<lparr>topic = ''stepper/1'', payload = Some ''{}''\<rparr> =
       started (steady ReadError WriteOk Connected) 1
   \<and> py_int 4300 (split_on CHR ''/'' ''stepper/1/axis/x/stop'' ! 3) = None
   \<and> on_command (steady ReadError WriteOk Connected)
         (started (steady ReadError WriteOk Connected) 1)
         \<lparr>topic = ''stepper/1/axis/x/stop'', payload = Some ''{}''\<rparr> =
       started (steady ReadError WriteOk Connected) 1
   \<and> py_int 4300 (split_on CHR ''/'' (''stepper/1/axis/'' @ [CHR 0x1C, CHR ''0''] @ ''/stop'') ! 3)
       = None
   \<and> on_command (steady ReadError WriteOk Connected)
         (started (steady ReadError WriteOk Connected) 1)
         \<lparr>topic = ''stepper/1/axis/'' @ [CHR 0x1C, CHR ''0''] @ ''/stop'',
          payload = Some ''{}''\<rparr> =
       started (steady ReadError WriteOk Connected) 1
   \<and> json_loads ''{stop'' = None
   \<and> on_command (steady ReadError WriteOk Connected)
         (started (steady ReadError WriteOk Connected) 1)
         \<lparr>topic = ''stepper/1/axis/0/stop'', payload = Some ''{stop''\<rparr> =
       started (steady ReadError WriteOk Connected) 1"
  using
    malformed_message_dropped
      [where msg = "\<lparr>topic = ''stepper/1'', payload = Some ''{}''\<rparr>"
         and env = "steady ReadError WriteOk Connected"
         and st = "started (steady ReadError WriteOk Connected) 1"]
    malformed_message_dropped
      [where msg = "\<lparr>topic = ''stepper/1/axis/x/stop'', payload = Some ''{}''\<rparr>"
         and env = "steady ReadError WriteOk Connected"
         and st = "started (steady ReadError WriteOk Connected) 1"]
    malformed_message_dropped
      [where msg = "\<lparr>topic = ''stepper/1/axis/'' @ [CHR 0x1C, CHR ''0''] @ ''/stop'',
                      payload = Some ''{}''\<rparr>"
         and env = "steady ReadError WriteOk Connected"
         and st = "started (steady ReadError WriteOk Connected) 1"]
    malformed_message_dropped
      [where msg = "\<lparr>topic = ''stepper/1/axis/0/stop'', payload = Some ''{stop''\<rparr>"
         and env = "steady ReadError WriteOk Connected"
         and st = "started (steady ReadError WriteOk Connected) 1"]
  by (simp add: steady_def int_defs text_defs cong: let_weak_cong)

text \<open>
  Claim C4.  An absolute move whose payload decodes to the object of
  \<^verbatim>\<open>{"position":1000,"speed":500}\<close>, on axis \<open>a\<close>: when the link is connected and \<open>a\<close> is
  one of the two axes, exactly one request is added to the bus, the write at address 0
  of the words 0x0102, \<open>a\<close>, 1000, 0, 0, 0, 500, 1000, 1000 in this order; otherwise
  nothing is sent.
\<close>

theorem move_absolute_write:
  assumes "payload msg = Some p"
    and "loads env p = Some (JObj [(''position'', JInt 1000), (''speed'', JInt 500)])"
    and "split_on CHR ''/'' (topic msg) = [root, seg, ''axis'', ax, ''move'', ''absolute'']"
    and "stepper_id_of (max_str_digits env) seg = slave_id st"
    and "py_int (max_str_digits env) ax = Some a"
  shows "bus (on_command env st msg) =
    (if modbus_connected st \<and> (a = 0 \<or> a = 1)
     then bus st @
       [WriteRegisters 0
          [JInt 0x0102, JInt a, JInt 1000, JInt 0, JInt 0, JInt 0,
           JInt 500, JInt 1000, JInt 1000]
          (slave_id st)]
     else bus st)"
proof -
  have "on_command env st msg =
      fst (move_absolute env a (JObj [(''position'', JInt 1000), (''speed'', JInt 500)]) st)"
    using on_command_move [OF assms(1) assms(2) assms(3) assms(4) assms(5)]
    by (simp add: axis_command_def)
  then show ?thesis
    by (simp add: move_absolute_def axis_move_absolute_def dict_get_def py_index_def Let_def
        write_registers_def send_def ack_def publish_def split: write_reply.splits)
qed

theorem move_absolute_write_witness:
  \<open>loads (steady ReadError WriteOk Connected) ''{"position":1000,"speed":500}'' =
     Some (JObj [(''position'', JInt 1000), (''speed'', JInt 500)])
   \<and> split_on CHR ''/'' ''stepper/1/axis/0/move/absolute'' =
     [''stepper'', ''1'', ''axis'', ''0'', ''move'', ''absolute'']
   \<and> stepper_id_of 4300 ''1'' = 1 \<and> py_int 4300 ''0'' = Some 0
   \<and> bus (on_command (steady ReadError WriteOk Connected)
             (started (steady ReadError WriteOk Connected) 1)
             \<lparr>topic = ''stepper/1/axis/0/move/absolute'',
              payload = Some ''{"position":1000,"speed":500}''\<rparr>) =
       [SerialTest, ClientConnect,
        WriteRegisters 0
          [JInt 0x0102, JInt 0, JInt 1000, JInt 0, JInt 0, JInt 0,
           JInt 500, JInt 1000, JInt 1000] 1]\<close>
  using move_absolute_write
    [where msg = \<open>\<lparr>topic = ''stepper/1/axis/0/move/absolute'',
                    payload = Some ''{"position":1000,"speed":500}''\<rparr>\<close>
       and p = \<open>''{"position":1000,"speed":500}''\<close>
       and root = "''stepper''" and seg = "''1''" and ax = "''0''" and a = 0
       and st = "started (steady ReadError WriteOk Connected) 1"
       and env = "steady ReadError WriteOk Connected"]
  by (simp add: json_loads_move int_defs fixture_defs link_defs)

text \<open>
  Claim C7, as amended.  The device segment of a topic is compared as an integer: the word
  \<^verbatim>\<open>stepper\<close> is removed from it, the rest is read by \<^verbatim>\<open>int()\<close>, and a segment that
  \<^verbatim>\<open>int()\<close> refuses counts as 0.  When that integer differs from the configured slave id
  the message is ignored: the state stays as it was, so no request is sent and nothing is
  published.
\<close>

theorem other_device_ignored:
  assumes "split_on CHR ''/'' (topic msg) = root # seg # rest"
    and "stepper_id_of (max_str_digits env) seg \<noteq> slave_id st"
  shows "on_command env st msg = st"
  using assms by (simp add: on_command_def Let_def split: option.splits)

theorem other_device_ignored_witness:
  "split_on CHR ''/'' ''stepper/2/axis/0/stop'' = [''stepper'', ''2'', ''axis'', ''0'', ''stop'']
   \<and> stepper_id_of 4300 ''2'' \<noteq> slave_id (started (steady ReadError WriteOk Connected) 1)
   \<and> on_command (steady ReadError WriteOk Connected)
         (started (steady ReadError WriteOk Connected) 1)
         \<lparr>topic = ''stepper/2/axis/0/stop'', payload = Some ''{}''\<rparr> =
       started (steady ReadError WriteOk Connected) 1
   \<and> stepper_id_of 4300 [CHR 0x1C, CHR ''1''] \<noteq>
       slave_id (started (steady ReadError WriteOk Connected) 1)
   \<and> on_command (steady ReadError WriteOk Connected)
         (started (steady ReadError WriteOk Connected) 1)
         \<lparr>topic = ''stepper/'' @ [CHR 0x1C, CHR ''1''] @ ''/axis/0/stop'',
          payload = Some ''{}''\<rparr> =
       started (steady ReadError WriteOk Connected) 1"
  using
    other_device_ignored
      [where msg = "\<lparr>topic = ''stepper/2/axis/0/stop'', payload = Some ''{}''\<rparr>"
         and root = "''stepper''" and seg = "''2''" and rest = "[''axis'', ''0'', ''stop'']"
         and st = "started (steady ReadError WriteOk Connected) 1"
         and env = "steady ReadError WriteOk Connected"]
    other_device_ignored
      [where msg = "\<lparr>topic = ''stepper/'' @ [CHR 0x1C, CHR ''1''] @ ''/axis/0/stop'',
                      payload = Some ''{}''\<rparr>"
         and root = "''stepper''" and seg = "[CHR 0x1C, CHR ''1'']"
         and rest = "[''axis'', ''0'', ''stop'']"
         and st = "started (steady ReadError WriteOk Connected) 1"
         and env = "steady ReadError WriteOk Connected"]
  by (simp add: int_defs fixture_defs link_defs)

text \<open>
  Claim C7 as stated fails: a device segment that differs from the configured id is
  dispatched all the same when it reads as the same integer.  With slave id 0 the topic
  \<^verbatim>\<open>stepper/pump/axis/0/stop\<close> stops axis 0 (a request on the bus, an acknowledgment
  published), and with slave id 1 so does \<^verbatim>\<open>stepper/01/axis/0/stop\<close>.
\<close>

theorem foreign_device_counterexample:
  "bus (on_command (steady ReadError WriteOk Connected)
          (started (steady ReadError WriteOk Connected) 0)
          \<lparr>topic = ''stepper/pump/axis/0/stop'', payload = Some ''{}''\<rparr>) =
     [SerialTest, ClientConnect, WriteRegister 0 0 0]
   \<and> published (on_command (steady ReadError WriteOk Connected)
          (started (steady ReadError WriteOk Connected) 0)
          \<lparr>topic = ''stepper/pump/axis/0/stop'', payload = Some ''{}''\<rparr>) =
     [(AckTopic 0 0, JObj [(''command'', JStr ''stop''), (''success'', JBool False)])]
   \<and> bus (on_command (steady ReadError WriteOk Connected)
          (started (steady ReadError WriteOk Connected) 1)
          \<lparr>topic = ''stepper/01/axis/0/stop'', payload = Some ''{}''\<rparr>) =
     [SerialTest, ClientConnect, WriteRegister 1 0 0]"
  by (simp add: on_command_def json_loads_braces int_defs fixture_defs link_defs
      axis_command_def stop_axis_def axis_stop_axis_def single_write_def ack_def)

section \<open>Register writes of the actions\<close>

text \<open>What a handler adds to the bus, when the link is connected.\<close>

lemma write_registers_bus:
  "modbus_connected st \<Longrightarrow>
     bus (fst (write_registers env address vals slave st)) =
     bus st @ [WriteRegisters address vals slave]"
  by (simp add: write_registers_def send_def split: write_reply.splits)

lemma write_register_bus:
  "modbus_connected st \<Longrightarrow>
     bus (fst (write_register env address val slave st)) =
     bus st @ [WriteRegister address val slave]"
  by (simp add: write_register_def send_def split: write_reply.splits)

lemma acked_bus:
  "bus (fst (case w of (st', Inl e) \<Rightarrow> (st', Inl e)
                    | (st', Inr result) \<Rightarrow> (ack axis_id (body result) st', Inr result))) =
   bus (fst w)"
  by (cases w) (simp add: ack_def publish_def split: sum.splits)

lemma single_write_bus:
  "modbus_connected st \<Longrightarrow>
     bus (fst (single_write env axis_id command n m st)) =
     bus st @ [WriteRegister (slave_id st) n m]"
  unfolding single_write_def by (simp only: acked_bus write_register_bus)

lemma servo_speed_write_bus:
  "modbus_connected st \<Longrightarrow>
     bus (fst (servo_speed_write env axis_id speed st)) =
     bus st @ [WriteRegisters 0 [JInt 0x0203, JInt axis_id, speed] (slave_id st)]"
  unfolding servo_speed_write_def by (simp only: acked_bus write_registers_bus)

lemma json_loads_home:
  \<open>json_loads ''{"direction":-1,"speed":250}'' =
     Some (JObj [(''direction'', JInt (- 1)), (''speed'', JInt 250)])\<close>
  by (simp add: text_defs cong: let_weak_cong)

lemma json_loads_distance:
  \<open>json_loads ''{"distance":10}'' = Some (JObj [(''distance'', JInt 10)])\<close>
  by (simp add: text_defs cong: let_weak_cong)

text \<open>
  Claim C3, as amended.  With the link connected and on either axis: an absolute move
  whose position is an integer, a servo enable, a servo disable and a servo speed given
  as an integer each add exactly one request to the bus, a multi-register write at
  address 0 whose first word is the opcode (0x0102, 0x0201, 0x0202, 0x0203), whose second
  word is the axis id and whose further words are the parameters of the action, with
  their defaults where the payload has none.  Home adds exactly one request, the write of
  a single register, and it is the same whatever direction and speed the payload names.
  Nothing is said here about the relative move.
\<close>

theorem multi_word_writes:
  assumes "modbus_connected st" and "axis_id = 0 \<or> axis_id = 1"
  shows
    "(py_index (dict_get kvs ''position'' (JInt 0)) = Inr t \<longrightarrow>
        bus (fst (move_absolute env axis_id (JObj kvs) st)) =
        bus st @
          [WriteRegisters 0
             [JInt 0x0102, JInt axis_id, JInt (t AND 0xFFFF), JInt (drop_bit 16 t AND 0xFFFF),
              JInt 0, JInt 0, dict_get kvs ''speed'' (JInt 1000),
              dict_get kvs ''acceleration'' (JInt 1000),
              dict_get kvs ''deceleration'' (JInt 1000)]
             (slave_id st)])
     \<and> bus (fst (enable_servo_mode env axis_id (JObj kvs) st)) =
        bus st @
          [WriteRegisters 0
             [JInt 0x0201, JInt axis_id, dict_get kvs ''max_speed'' (JInt 5000),
              dict_get kvs ''acceleration'' (JInt 1000)]
             (slave_id st)]
     \<and> bus (fst (disable_servo_mode env axis_id st)) =
        bus st @ [WriteRegisters 0 [JInt 0x0202, JInt axis_id] (slave_id st)]
     \<and> (kvs \<noteq> [] \<and> dict_get kvs ''speed'' (JInt 0) = JInt n \<longrightarrow>
        bus (fst (set_servo_speed env axis_id (JObj kvs) st)) =
        bus st @ [WriteRegisters 0 [JInt 0x0203, JInt axis_id, JInt n] (slave_id st)])
     \<and> (\<exists>r. single_register r
            \<and> bus (fst (home_axis env axis_id (JObj kvs) st)) = bus st @ [r])
     \<and> home_axis env axis_id (JObj kvs) st = home_axis env axis_id (JObj []) st"
proof (intro conjI impI)
  assume "py_index (dict_get kvs ''position'' (JInt 0)) = Inr t"
  with assms show "bus (fst (move_absolute env axis_id (JObj kvs) st)) =
        bus st @
          [WriteRegisters 0
             [JInt 0x0102, JInt axis_id, JInt (t AND 0xFFFF), JInt (drop_bit 16 t AND 0xFFFF),
              JInt 0, JInt 0, dict_get kvs ''speed'' (JInt 1000),
              dict_get kvs ''acceleration'' (JInt 1000),
              dict_get kvs ''deceleration'' (JInt 1000)]
             (slave_id st)]"
    by (auto simp: move_absolute_def axis_move_absolute_def Let_def acked_bus
        write_registers_bus)
next
  from assms show "bus (fst (enable_servo_mode env axis_id (JObj kvs) st)) =
        bus st @
          [WriteRegisters 0
             [JInt 0x0201, JInt axis_id, dict_get kvs ''max_speed'' (JInt 5000),
              dict_get kvs ''acceleration'' (JInt 1000)]
             (slave_id st)]"
    by (auto simp: enable_servo_mode_def axis_enable_servo_mode_def Let_def acked_bus
        write_registers_bus)
next
  from assms show "bus (fst (disable_servo_mode env axis_id st)) =
        bus st @ [WriteRegisters 0 [JInt 0x0202, JInt axis_id] (slave_id st)]"
    by (auto simp: disable_servo_mode_def axis_disable_servo_mode_def acked_bus
        write_registers_bus)
next
  assume "kvs \<noteq> [] \<and> dict_get kvs ''speed'' (JInt 0) = JInt n"
  with assms show "bus (fst (set_servo_speed env axis_id (JObj kvs) st)) =
        bus st @ [WriteRegisters 0 [JInt 0x0203, JInt axis_id, JInt n] (slave_id st)]"
    by (auto simp: set_servo_speed_def axis_set_servo_speed_def py_truthy_def
        servo_speed_write_bus)
next
  from assms have "bus (fst (home_axis env axis_id (JObj kvs) st)) =
      bus st @ [WriteRegister (slave_id st) 0 1]"
    by (auto simp: home_axis_def axis_home_axis_def single_write_bus)
  then show "\<exists>r. single_register r
      \<and> bus (fst (home_axis env axis_id (JObj kvs) st)) = bus st @ [r]"
    by (simp add: single_register_def)
next
  show "home_axis env axis_id (JObj kvs) st = home_axis env axis_id (JObj []) st"
    by (simp add: home_axis_def axis_home_axis_def)
qed

theorem multi_word_writes_witness:
  "modbus_connected (started (steady ReadError WriteOk Connected) 1)
   \<and> py_index (dict_get [(''position'', JInt (- 5)), (''speed'', JInt 500)] ''position'' (JInt 0))
       = Inr (- 5)
   \<and> bus (fst (move_absolute (steady ReadError WriteOk Connected) 0
          (JObj [(''position'', JInt (- 5)), (''speed'', JInt 500)])
          (started (steady ReadError WriteOk Connected) 1))) =
       [SerialTest, ClientConnect,
        WriteRegisters 0
          [JInt 0x0102, JInt 0, JInt 0xFFFB, JInt 0xFFFF, JInt 0, JInt 0,
           JInt 500, JInt 1000, JInt 1000] 1]
   \<and> bus (fst (enable_servo_mode (steady ReadError WriteOk Connected) 0
          (JObj [(''position'', JInt (- 5)), (''speed'', JInt 500)])
          (started (steady ReadError WriteOk Connected) 1))) =
       [SerialTest, ClientConnect,
        WriteRegisters 0 [JInt 0x0201, JInt 0, JInt 5000, JInt 1000] 1]
   \<and> bus (fst (disable_servo_mode (steady ReadError WriteOk Connected) 0
          (started (steady ReadError WriteOk Connected) 1))) =
       [SerialTest, ClientConnect, WriteRegisters 0 [JInt 0x0202, JInt 0] 1]
   \<and> bus (fst (set_servo_speed (steady ReadError WriteOk Connected) 0
          (JObj [(''position'', JInt (- 5)), (''speed'', JInt 500)])
          (started (steady ReadError WriteOk Connected) 1))) =
       [SerialTest, ClientConnect, WriteRegisters 0 [JInt 0x0203, JInt 0, JInt 500] 1]
   \<and> (\<exists>r. single_register r
          \<and> bus (fst (home_axis (steady ReadError WriteOk Connected) 0
                (JObj [(''position'', JInt (- 5)), (''speed'', JInt 500)])
                (started (steady ReadError WriteOk Connected) 1))) =
              [SerialTest, ClientConnect, r])"
  using multi_word_writes
    [where st = "started (steady ReadError WriteOk Connected) 1" and axis_id = 0
       and kvs = "[(''position'', JInt (- 5)), (''speed'', JInt 500)]" and t = "- 5"
       and env = "steady ReadError WriteOk Connected" and n = 500]
  by (simp add: fixture_defs link_defs handler_defs single_register_def)

text \<open>
  Claim C3 as stated fails for home: its write carries neither a direction nor a speed.
  With slave id 7 and the payload \<^verbatim>\<open>{"direction":-1,"speed":250}\<close> the one request of
  a home command is the write of a single register, in which neither -1 nor 250 occurs,
  and with the payload \<^verbatim>\<open>{}\<close> it is the same request again, in which no 500 occurs.
  A relative move adds no request at all.
\<close>

theorem home_and_relative_counterexample:
  \<open>bus (on_command (steady ReadError WriteOk Connected)
          (started (steady ReadError WriteOk Connected) 7)
          \<lparr>topic = ''stepper/7/axis/0/home'',
           payload = Some ''{"direction":-1,"speed":250}''\<rparr>) =
     [SerialTest, ClientConnect, WriteRegister 7 0 1]
   \<and> bus (on_command (steady ReadError WriteOk Connected)
          (started (steady ReadError WriteOk Connected) 7)
          \<lparr>topic = ''stepper/7/axis/0/home'', payload = Some ''{}''\<rparr>) =
     [SerialTest, ClientConnect, WriteRegister 7 0 1]
   \<and> on_command (steady ReadError WriteOk Connected)
          (started (steady ReadError WriteOk Connected) 7)
          \<lparr>topic = ''stepper/7/axis/0/move/relative'',
           payload = Some ''{"distance":10}''\<rparr> =
     started (steady ReadError WriteOk Connected) 7\<close>
  by (simp add: on_command_def json_loads_braces json_loads_home json_loads_distance
      int_defs fixture_defs link_defs handler_defs)

section \<open>Acknowledgments and single-register writes\<close>

text \<open>
  Claim C1 on the code.  A stop on axis 0 of slave 1, link connected: when the device
  accepts the write the acknowledgment says \<^verbatim>\<open>success: false\<close>, and when the device
  answers with an error it says \<^verbatim>\<open>success: true\<close>, because \<^verbatim>\<open>write_register\<close> returns
  \<^verbatim>\<open>result.isError()\<close>.  The multi-register path (here \<^verbatim>\<open>disable_servo\<close>) reports an
  accepted write as \<^verbatim>\<open>success: true\<close>.  A relative move publishes no acknowledgment at
  all.
\<close>

theorem single_write_ack_evaluated:
  "published (on_command (steady ReadError WriteOk Connected)
          (started (steady ReadError WriteOk Connected) 1)
          \<lparr>topic = ''stepper/1/axis/0/stop'', payload = Some ''{}''\<rparr>) =
     [(AckTopic 1 0, JObj [(''command'', JStr ''stop''), (''success'', JBool False)])]
   \<and> published (on_command (steady ReadError WriteError Connected)
          (started (steady ReadError WriteError Connected) 1)
          \<lparr>topic = ''stepper/1/axis/0/stop'', payload = Some ''{}''\<rparr>) =
     [(AckTopic 1 0, JObj [(''command'', JStr ''stop''), (''success'', JBool True)])]
   \<and> published (on_command (steady ReadError WriteOk Connected)
          (started (steady ReadError WriteOk Connected) 1)
          \<lparr>topic = ''stepper/1/axis/0/disable_servo'', payload = Some ''{}''\<rparr>) =
     [(AckTopic 1 0,
       JObj [(''command'', JStr ''disable_servo_mode''), (''success'', JBool True)])]
   \<and> published (on_command (steady ReadError WriteOk Connected)
          (started (steady ReadError WriteOk Connected) 1)
          \<lparr>topic = ''stepper/1/axis/0/move/relative'', payload = Some ''{}''\<rparr>) = []"
  by (simp add: on_command_def json_loads_braces int_defs fixture_defs link_defs
      handler_defs)

text \<open>
  Claim C2 on the code.  The single-word actions hand \<^verbatim>\<open>(slave_id, n, m)\<close> to
  \<^verbatim>\<open>write_register(address, value, slave_id)\<close>, so the request on the bus has the slave
  id as its register address, the intended address as its value and the intended value
  as its unit: with slave id 7, enable writes value 4 to register 7 of unit 1 (with slave
  id 1, to register 1), stop writes 0 to register 7 of unit 0, disable writes 4 to
  register 7 of unit 0 and reset writes 5 to register 7 of unit 1.
\<close>

theorem enable_write_evaluated:
  "bus (on_command (steady ReadError WriteOk Connected)
          (started (steady ReadError WriteOk Connected) 7)
          \<lparr>topic = ''stepper/7/axis/0/enable'', payload = Some ''{}''\<rparr>) =
     [SerialTest, ClientConnect, WriteRegister 7 4 1]
   \<and> bus (on_command (steady ReadError WriteOk Connected)
          (started (steady ReadError WriteOk Connected) 1)
          \<lparr>topic = ''stepper/1/axis/0/enable'', payload = Some ''{}''\<rparr>) =
     [SerialTest, ClientConnect, WriteRegister 1 4 1]
   \<and> bus (on_command (steady ReadError WriteOk Connected)
          (started (steady ReadError WriteOk Connected) 7)
          \<lparr>topic = ''stepper/7/axis/1/stop'', payload = Some ''{}''\<rparr>) =
     [SerialTest, ClientConnect, WriteRegister 7 0 0]
   \<and> bus (on_command (steady ReadError WriteOk Connected)
          (started (steady ReadError WriteOk Connected) 7)
          \<lparr>topic = ''stepper/7/axis/1/disable'', payload = Some ''{}''\<rparr>) =
     [SerialTest, ClientConnect, WriteRegister 7 4 0]
   \<and> bus (on_command (steady ReadError WriteOk Connected)
          (started (steady ReadError WriteOk Connected) 7)
          \<lparr>topic = ''stepper/7/axis/1/reset'', payload = Some ''{}''\<rparr>) =
     [SerialTest, ClientConnect, WriteRegister 7 5 1]"
  by (simp add: on_command_def json_loads_braces int_defs fixture_defs link_defs
      handler_defs)

section \<open>Payloads of the single-word commands\<close>







section \<open>Servo speed\<close>

lemma py_float_sample: "py_float ''12.7'' = Some (Finite 7149464408450662 (- 49))"
  by (simp add: text_defs cong: let_weak_cong)

lemma py_float_letters: "py_float ''abc'' = None"
  by (simp add: text_defs cong: let_weak_cong)

lemma json_loads_speed_sample:
  \<open>json_loads ''{"speed":"12.7"}'' = Some (JObj [(''speed'', JStr ''12.7'')])\<close>
  by (simp add: text_defs cong: let_weak_cong)

lemma json_loads_speed_letters:
  \<open>json_loads ''{"speed":"abc"}'' = Some (JObj [(''speed'', JStr ''abc'')])\<close>
  by (simp add: text_defs cong: let_weak_cong)

text \<open>\<^verbatim>\<open>int(x)\<close> of a finite float is the integer next to it towards zero.\<close>

lemma div_bounds:
  fixes m d :: int
  assumes "0 < d"
  shows "m div d * d \<le> m \<and> m < (m div d + 1) * d"
proof -
  have e: "m div d * d + m mod d = m"
    by simp
  have "0 \<le> m mod d" and "m mod d < d"
    using assms by simp_all
  with e have "m div d * d \<le> m" and "m < m div d * d + d"
    by linarith+
  then show ?thesis
    by (simp add: distrib_right)
qed

lemma trunc_float_whole: "0 \<le> e \<Longrightarrow> trunc_float m e = m * 2 ^ nat e"
  by (simp add: trunc_float_def)

lemma trunc_float_down:
  assumes "e < 0" and "0 \<le> m"
  shows "0 \<le> trunc_float m e"
    and "trunc_float m e * 2 ^ nat (- e) \<le> m"
    and "m < (trunc_float m e + 1) * 2 ^ nat (- e)"
  using assms div_bounds [of "2 ^ nat (- e)" m]
  by (simp_all add: trunc_float_def pos_imp_zdiv_nonneg_iff)

lemma trunc_float_up:
  assumes "e < 0" and "m < 0"
  shows "trunc_float m e \<le> 0"
    and "m \<le> trunc_float m e * 2 ^ nat (- e)"
    and "(trunc_float m e - 1) * 2 ^ nat (- e) < m"
proof -
  have d: "(0::int) < 2 ^ nat (- e)" by simp
  from assms have t: "trunc_float m e = - ((- m) div 2 ^ nat (- e))"
    by (simp add: trunc_float_def)
  from assms d show "trunc_float m e \<le> 0"
    by (simp add: t pos_imp_zdiv_nonneg_iff)
  from div_bounds [OF d, of "- m"] show "m \<le> trunc_float m e * 2 ^ nat (- e)"
    by (simp add: t)
  from div_bounds [OF d, of "- m"] show "(trunc_float m e - 1) * 2 ^ nat (- e) < m"
    by (simp add: t algebra_simps)
qed

text \<open>
  Claim C10.  A \<^verbatim>\<open>servo_speed\<close> message for axis 0 or 1 of the configured device, link
  connected, whose payload decodes to a non-empty object.  A speed that is an integer is
  written as it is.  A speed that is a finite float, or a string that \<^verbatim>\<open>float()\<close> reads
  as a finite number, is written truncated towards zero (\<open>trunc_float\<close>).  In each of
  these cases exactly one request is added to the bus, the write of the words 0x0203,
  axis id and speed at address 0.  A string that \<^verbatim>\<open>float()\<close> refuses leaves the state
  as it was: no request and no acknowledgment; so does a float, or a string read as a
  float, that is infinite or not a number.
\<close>

theorem servo_speed_conversion:
  assumes "modbus_connected st"
    and "payload msg = Some p" and "loads env p = Some (JObj kvs)" and "kvs \<noteq> []"
    and "split_on CHR ''/'' (topic msg) = [root, seg, ''axis'', ax, ''servo_speed'']"
    and "stepper_id_of (max_str_digits env) seg = slave_id st"
    and "py_int (max_str_digits env) ax = Some a" and "a = 0 \<or> a = 1"
  shows
    "(dict_get kvs ''speed'' (JInt 0) = JInt n \<longrightarrow>
        bus (on_command env st msg) =
        bus st @ [WriteRegisters 0 [JInt 0x0203, JInt a, JInt n] (slave_id st)])
     \<and> (dict_get kvs ''speed'' (JInt 0) = JFloat (Finite m e) \<longrightarrow>
        bus (on_command env st msg) =
        bus st @ [WriteRegisters 0 [JInt 0x0203, JInt a, JInt (trunc_float m e)] (slave_id st)])
     \<and> (dict_get kvs ''speed'' (JInt 0) = JStr s \<and> py_float s = Some (Finite m e) \<longrightarrow>
        bus (on_command env st msg) =
        bus st @ [WriteRegisters 0 [JInt 0x0203, JInt a, JInt (trunc_float m e)] (slave_id st)])
     \<and> (dict_get kvs ''speed'' (JInt 0) = JStr s \<and> py_float s = None \<longrightarrow>
        on_command env st msg = st)
     \<and> ((dict_get kvs ''speed'' (JInt 0) = JFloat f
          \<or> dict_get kvs ''speed'' (JInt 0) = JStr s \<and> py_float s = Some f)
         \<and> f \<in> {PosInf, NegInf, NaN} \<longrightarrow>
        on_command env st msg = st)"
proof -
  have "on_command env st msg = fst (axis_command env ''servo_speed'' a (JObj kvs) st)"
    by (rule on_command_axis [OF assms(2) assms(3) assms(5) assms(6) assms(7)])
  also have "\<dots> = fst (axis_set_servo_speed env a (JObj kvs) st)"
    using assms(4) assms(8)
    by (auto simp: axis_command_def set_servo_speed_def py_truthy_def)
  finally have routed:
    "on_command env st msg = fst (axis_set_servo_speed env a (JObj kvs) st)" .
  show ?thesis
    using assms(1)
    by (auto simp: routed axis_set_servo_speed_def py_int_of_float_def servo_speed_write_bus)
qed

theorem servo_speed_conversion_witness:
  \<open>loads (steady ReadError WriteOk Connected) ''{"speed":"12.7"}'' =
     Some (JObj [(''speed'', JStr ''12.7'')])
   \<and> py_float ''12.7'' = Some (Finite 7149464408450662 (- 49))
   \<and> trunc_float 7149464408450662 (- 49) = 12
   \<and> bus (on_command (steady ReadError WriteOk Connected)
          (started (steady ReadError WriteOk Connected) 1)
          \<lparr>topic = ''stepper/1/axis/0/servo_speed'', payload = Some ''{"speed":"12.7"}''\<rparr>) =
       [SerialTest, ClientConnect, WriteRegisters 0 [JInt 0x0203, JInt 0, JInt 12] 1]
   \<and> py_float ''abc'' = None
   \<and> on_command (steady ReadError WriteOk Connected)
          (started (steady ReadError WriteOk Connected) 1)
          \<lparr>topic = ''stepper/1/axis/0/servo_speed'', payload = Some ''{"speed":"abc"}''\<rparr> =
       started (steady ReadError WriteOk Connected) 1\<close>
  using
    servo_speed_conversion
      [where st = "started (steady ReadError WriteOk Connected) 1"
         and env = "steady ReadError WriteOk Connected"
         and msg = \<open>\<lparr>topic = ''stepper/1/axis/0/servo_speed'',
                     payload = Some ''{"speed":"12.7"}''\<rparr>\<close>
         and p = \<open>''{"speed":"12.7"}''\<close> and kvs = "[(''speed'', JStr ''12.7'')]"
         and root = "''stepper''" and seg = "''1''" and ax = "''0''" and a = 0
         and s = "''12.7''" and m = 7149464408450662 and e = "- 49"]
    servo_speed_conversion
      [where st = "started (steady ReadError WriteOk Connected) 1"
         and env = "steady ReadError WriteOk Connected"
         and msg = \<open>\<lparr>topic = ''stepper/1/axis/0/servo_speed'',
                     payload = Some ''{"speed":"abc"}''\<rparr>\<close>
         and p = \<open>''{"speed":"abc"}''\<close> and kvs = "[(''speed'', JStr ''abc'')]"
         and root = "''stepper''" and seg = "''1''" and ax = "''0''" and a = 0
         and s = "''abc''"]
  by (simp add: json_loads_speed_sample json_loads_speed_letters py_float_sample
      py_float_letters int_defs fixture_defs link_defs dict_get_def trunc_float_def)

section \<open>Polling\<close>

text \<open>What the steps of a tick leave of the state.\<close>

lemma decode_status_state:
  "decode_status sv st = (s0, s1, st2) \<Longrightarrow>
     running st2 = running st \<and> poll_count st2 = poll_count st \<and> bus st2 = bus st
     \<and> modbus_connected st2 = modbus_connected st \<and> slave_id st2 = slave_id st
     \<and> published st2 = published st \<and> position_0 st2 = position_0 st
     \<and> position_1 st2 = position_1 st
     \<and> (status_connected st \<longrightarrow> status_connected st2)"
  by (auto simp: decode_status_def split: option.splits list.splits)



lemma read_registers_result:
  "read_registers env a c s st = (st1, r) \<Longrightarrow>
     running st1 = running st \<and> poll_count st1 = poll_count st
     \<and> modbus_connected st1 = modbus_connected st \<and> slave_id st1 = slave_id st
     \<and> status_connected st1 = status_connected st \<and> published st1 = published st
     \<and> bus st1 = bus st @ (if modbus_connected st then [ReadHolding a c s] else [])
     \<and> r = (if modbus_connected st
          then (case on_read env (bus st) (ReadHolding a c s) of
                  Registers ws \<Rightarrow> Inr (Some ws)
                | ReadError \<Rightarrow> Inr None
                | ReadRaises \<Rightarrow> Inl ModbusException)
          else Inr None)"
  by (auto simp: read_registers_def send_def split: if_splits read_reply.splits)




lemma poll_once_quiet:
  assumes "poll_try env st = (st1, Inr u)"
  shows "poll_once env st = st1"
  using assms by (simp add: poll_once_def)






lemmas poll_defs = poll_once_def poll_try_def decode_status_def store_positions_def
  publish_all_def default_status_def is_registers_def



section \<open>Positions\<close>

text \<open>The number made of two registers.\<close>

lemma combine_sum: "combine low high = uint high * 65536 + uint low"
proof -
  have t: "take_bit 16 (uint low) = uint low"
    using uint_bounded [of low] by (intro take_bit_int_eq_self) simp_all
  have "combine low high = concat_bit 16 (uint low) (uint high)"
    by (simp add: combine_def concat_bit_def t or.commute)
  then show ?thesis
    by (simp add: concat_bit_eq t push_bit_eq_mult)
qed

lemma combine_range: "0 \<le> combine low high \<and> combine low high < 2 ^ 32"
proof -
  have "uint low < 65536" and "uint high < 65536"
    using uint_bounded [of low] uint_bounded [of high] by simp_all
  then show ?thesis
    by (simp add: combine_sum)
qed

lemma top_bit_uint: "bit high 15 \<Longrightarrow> 2 ^ 15 \<le> uint high" for high :: "16 word"
proof (rule ccontr)
  assume b: "bit high 15" and "\<not> 2 ^ 15 \<le> uint high"
  then have "take_bit 15 (uint high) = uint high"
    by (intro take_bit_int_eq_self) simp_all
  then have "bit (uint high) 15 = bit (take_bit 15 (uint high)) 15"
    by simp
  also have "\<dots> = False"
    by (simp add: bit_take_bit_iff)
  finally show False
    using b by (simp add: bit_uint_iff)
qed

lemma combine_top_bit: "bit high 15 \<Longrightarrow> 2 ^ 31 \<le> combine low high"
proof -
  assume "bit high 15"
  then have "32768 \<le> uint high"
    using top_bit_uint [of high] by simp
  then have "2147483648 \<le> uint high * 65536"
    by simp
  moreover have "uint high * 65536 \<le> uint high * 65536 + uint low"
    by simp
  ultimately have "2147483648 \<le> uint high * 65536 + uint low"
    by (rule order_trans)
  then show ?thesis
    by (simp add: combine_sum)
qed

lemma uint_cat: "uint (word_cat high low :: 32 word) = combine low high"
  for low high :: "16 word"
proof -
  have t: "take_bit 16 (uint low) = uint low"
    using uint_bounded [of low] by (intro take_bit_int_eq_self) simp_all
  have c: "concat_bit 16 (uint low) (uint high) = combine low high"
    by (simp add: combine_def concat_bit_def t or.commute)
  have "uint (word_cat high low :: 32 word) = take_bit 32 (combine low high)"
    by (simp add: word_cat_eq' uint_word_of_int_eq c)
  also have "\<dots> = combine low high"
    using combine_range [of low high] by (intro take_bit_int_eq_self) simp_all
  finally show ?thesis .
qed

lemma signed_position_eq:
  "signed_position low high = combine low high - (if bit high 15 then 2 ^ 32 else 0)"
proof -
  have b: "bit (uint (word_cat high low :: 32 word)) 31 = bit high 15"
    by (simp add: bit_uint_iff bit_word_cat_iff)
  have "signed_position low high =
      take_bit 32 (uint (word_cat high low :: 32 word))
      - 2 ^ 32 * of_bool (bit (uint (word_cat high low :: 32 word)) 31)"
    unfolding signed_position_def sint_uint
    using signed_take_bit_eq_take_bit_minus [of 31 "uint (word_cat high low :: 32 word)"]
    by simp
  also have "take_bit 32 (uint (word_cat high low :: 32 word)) = combine low high"
    using combine_range [of low high] by (simp add: uint_cat take_bit_int_eq_self)
  finally show ?thesis
    by (simp add: b)
qed

lemma poll_try_positions:
  assumes "modbus_connected st"
    and "on_read env (bus st) (ReadHolding 1 0x0D (slave_id st)) \<noteq> ReadRaises"
    and "on_read env (bus st @ [ReadHolding 1 0x0D (slave_id st)])
           (ReadHolding 0x11 4 (slave_id st)) = Registers [l0, h0, l1, h1]"
  shows "\<exists>st1 s0 s1. poll_try env st = (st1, Inr ())
    \<and> published st1 = published st @
        [(StatusTopic (slave_id st) 0, s0), (StatusTopic (slave_id st) 1, s1),
         (PositionTopic (slave_id st) 0, JObj [(''position'', JInt (combine l0 h0))]),
         (PositionTopic (slave_id st) 1, JObj [(''position'', JInt (combine l1 h1))])]"
proof -
  obtain sa ra where r1:
    "read_registers env 1 0x0D (slave_id st) (st\<lparr>poll_count := poll_count st + 1\<rparr>) = (sa, ra)"
    by fastforce
  note f1 = read_registers_result [OF r1]
  from f1 assms(1) assms(2) obtain sv where ra: "ra = Inr sv"
    by (auto split: read_reply.splits)
  obtain s0 s1 sb where d: "decode_status sv sa = (s0, s1, sb)"
    by (cases "decode_status sv sa") auto
  note f2 = decode_status_state [OF d]
  obtain sc rc where r2: "read_registers env 0x11 4 (slave_id sb) sb = (sc, rc)"
    by fastforce
  note f3 = read_registers_result [OF r2]
  from f1 f2 assms(1) have "bus sb = bus st @ [ReadHolding 1 0x0D (slave_id st)]"
    and "slave_id sb = slave_id st" and "modbus_connected sb"
    by simp_all
  with f3 assms(3) have rc: "rc = Inr (Some [l0, h0, l1, h1])"
    by simp
  from r1 ra d r2 rc
  have p: "poll_try env st =
      (publish_all s0 s1 (store_positions (Some [l0, h0, l1, h1]) sc), Inr ())"
    by (simp add: poll_try_def)
  from f1 f2 f3 have "published sc = published st" and "slave_id sc = slave_id st"
    by simp_all
  then have "published (publish_all s0 s1 (store_positions (Some [l0, h0, l1, h1]) sc)) =
      published st @
        [(StatusTopic (slave_id st) 0, s0), (StatusTopic (slave_id st) 1, s1),
         (PositionTopic (slave_id st) 0, JObj [(''position'', JInt (combine l0 h0))]),
         (PositionTopic (slave_id st) 1, JObj [(''position'', JInt (combine l1 h1))])]"
    by (simp add: publish_all_def publish_def store_positions_def)
  with p show ?thesis
    by blast
qed

text \<open>
  Claim C6, as amended.  When the tick reads the four position registers, the position
  published for each axis is the number \<open>high * 65536 + low\<close> of its two registers, low
  word first: an unsigned 32-bit integer, at least 0 and below \<open>2 ^ 32\<close>.  Registers
  5, 0 give 5 and registers 0, 1 give 65536.  It is the signed reading of the 32 bits
  when the top bit of the high word is clear; when that bit is set it is at least
  \<open>2 ^ 31\<close>, the signed reading plus \<open>2 ^ 32\<close>, and not the negative value.
\<close>

theorem position_published:
  assumes "modbus_connected st"
    and "on_read env (bus st) (ReadHolding 1 0x0D (slave_id st)) \<noteq> ReadRaises"
    and "on_read env (bus st @ [ReadHolding 1 0x0D (slave_id st)])
           (ReadHolding 0x11 4 (slave_id st)) = Registers [l0, h0, l1, h1]"
  shows "(\<exists>s0 s1. published (poll_once env st) = published st @
        [(StatusTopic (slave_id st) 0, s0), (StatusTopic (slave_id st) 1, s1),
         (PositionTopic (slave_id st) 0, JObj [(''position'', JInt (combine l0 h0))]),
         (PositionTopic (slave_id st) 1, JObj [(''position'', JInt (combine l1 h1))])])
    \<and> combine low high = uint high * 65536 + uint low
    \<and> 0 \<le> combine low high \<and> combine low high < 2 ^ 32
    \<and> combine 5 0 = 5 \<and> combine 0 1 = 65536
    \<and> (\<not> bit high 15 \<longrightarrow> combine low high = signed_position low high)
    \<and> (bit high 15 \<longrightarrow>
         2 ^ 31 \<le> combine low high \<and> combine low high = signed_position low high + 2 ^ 32)"
proof -
  from poll_try_positions [OF assms] obtain st1 s0 s1
    where p: "poll_try env st = (st1, Inr ())"
      and q: "published st1 = published st @
        [(StatusTopic (slave_id st) 0, s0), (StatusTopic (slave_id st) 1, s1),
         (PositionTopic (slave_id st) 0, JObj [(''position'', JInt (combine l0 h0))]),
         (PositionTopic (slave_id st) 1, JObj [(''position'', JInt (combine l1 h1))])]"
    by blast
  from p have "poll_once env st = st1"
    by (simp add: poll_once_quiet)
  with q have "\<exists>s0 s1. published (poll_once env st) = published st @
        [(StatusTopic (slave_id st) 0, s0), (StatusTopic (slave_id st) 1, s1),
         (PositionTopic (slave_id st) 0, JObj [(''position'', JInt (combine l0 h0))]),
         (PositionTopic (slave_id st) 1, JObj [(''position'', JInt (combine l1 h1))])]"
    by blast
  moreover have "combine 5 0 = 5" and "combine 0 1 = 65536"
    by (simp_all add: combine_sum)
  ultimately show ?thesis
    using combine_range [of low high] combine_top_bit [of high low]
    by (simp add: combine_sum [symmetric] signed_position_eq)
qed

theorem position_published_witness:
  "modbus_connected (started (steady (Registers [0, 0x8000, 5, 0]) WriteOk Connected) 1)
   \<and> on_read (steady (Registers [0, 0x8000, 5, 0]) WriteOk Connected)
        (bus (started (steady (Registers [0, 0x8000, 5, 0]) WriteOk Connected) 1))
        (ReadHolding 1 0x0D 1) \<noteq> ReadRaises
   \<and> bit (0x8000 :: 16 word) 15
   \<and> combine 0 0x8000 = 2147483648
   \<and> combine 5 0 = 5
   \<and> (\<exists>s0 s1.
        published (poll_once (steady (Registers [0, 0x8000, 5, 0]) WriteOk Connected)
          (started (steady (Registers [0, 0x8000, 5, 0]) WriteOk Connected) 1)) =
        [(StatusTopic 1 0, s0), (StatusTopic 1 1, s1),
         (PositionTopic 1 0, JObj [(''position'', JInt 2147483648)]),
         (PositionTopic 1 1, JObj [(''position'', JInt 5)])])"
  using position_published
    [where env = "steady (Registers [0, 0x8000, 5, 0]) WriteOk Connected"
       and st = "started (steady (Registers [0, 0x8000, 5, 0]) WriteOk Connected) 1"
       and ?l0.0 = 0 and ?h0.0 = "0x8000" and ?l1.0 = 5 and ?h1.0 = 0
       and low = 0 and high = "0x8000"]
  by (simp add: fixture_defs link_defs combine_sum)

text \<open>
  Claim C6 as stated fails for a high word with its top bit set.  The registers
  0, 0x8000 of axis 0 are the signed 32-bit integer -2147483648; the position published
  for them is 2147483648.  (The registers 5, 0 of axis 1 are published as 5.)
\<close>

theorem signed_position_counterexample:
  "signed_position 0 0x8000 = - 2147483648
   \<and> drop 2 (published (poll_once (steady (Registers [0, 0x8000, 5, 0]) WriteOk Connected)
          (started (steady (Registers [0, 0x8000, 5, 0]) WriteOk Connected) 1))) =
       [(PositionTopic 1 0, JObj [(''position'', JInt 2147483648)]),
        (PositionTopic 1 1, JObj [(''position'', JInt 5)])]"
  by (simp add: signed_position_def word_cat_eq poll_defs fixture_defs link_defs combine_sum)

end
